theory Spec2Isabelle
  imports Complex_Main
begin

section \<open>The TP/SL grid backtester of 7.2.py\<close>

text \<open>
  A shallow embedding of \<^verbatim>\<open>simulate_system_for_metrics\<close> and \<^verbatim>\<open>run_grid_search\<close>.
  Python floats are read as real numbers: no rounding, no NaN or infinity in the inputs,
  and the simulator follows the code as long as no float of the run leaves the float
  range. The power of line 347, which raises when it leaves that range, is modelled with
  its OverflowError; what the compounding equity of lines 316 and 317 does beyond the
  range (infinity and NaN) is modelled apart, in \<open>equity_comp_float\<close>.
  A field that the source sets to \<^verbatim>\<open>np.nan\<close> is a \<open>real option\<close> with \<open>None\<close> for NaN.
  Python integers are \<open>int\<close>. The module-level constants that the functions read are the
  fields of one \<open>config\<close> value; \<open>module_config\<close> holds the values written in the source.
  Progress printing and file output are left out: they do not influence any returned value.
\<close>

subsection \<open>Data\<close>

text \<open>One row of the price frame; \<open>date\<close> is the index entry as a day number.\<close>

record bar =
  date :: int
  Open :: real
  High :: real
  Low :: real
  Close :: real

type_synonym df = "bar list"

record config =
  TP_MIN :: real
  TP_MAX :: real
  TP_STEPS :: int
  SL_MIN :: real
  SL_MAX :: real
  SL_STEPS :: int
  HORIZON_MIN :: int
  HORIZON_MAX :: int
  START_CAPITAL :: real
  FEE_RATE :: real
  SPREAD_RATE :: real
  AMBIGUOUS_FILL :: string

definition module_config :: config where
  "module_config =
     \<lparr> TP_MIN = 0.005, TP_MAX = 0.40, TP_STEPS = 25,
       SL_MIN = 0.005, SL_MAX = 0.20, SL_STEPS = 25,
       HORIZON_MIN = 1, HORIZON_MAX = 200,
       START_CAPITAL = 100000,
       FEE_RATE = 0.001, SPREAD_RATE = 0.0001,
       AMBIGUOUS_FILL = ''SL_FIRST'' \<rparr>"

definition TOTAL_COST_FRAC :: "config \<Rightarrow> real" where
  "TOTAL_COST_FRAC cfg = 2 * FEE_RATE cfg + SPREAD_RATE cfg"

datatype py_error = ZeroDivisionError | ValueError | OverflowError

text \<open>An open position is the list \<^verbatim>\<open>[tp_level, sl_level, expiry]\<close>.\<close>

type_synonym position = "real \<times> real \<times> int"

definition expiry_of :: "position \<Rightarrow> int" where
  "expiry_of p = snd (snd p)"

text \<open>The local variables of the simulator that live across loop iterations.\<close>

record sim_state =
  trades :: int
  label1_count :: int
  pnl_linear_sum :: real
  equity_lin :: real
  max_equity_lin :: real
  dd_min :: real
  mean_r :: real
  M2 :: real
  equity_comp :: real
  open_pos :: "position list"
  still_open :: "position list"

text \<open>The dictionary returned by the simulator, one field per key.\<close>

record SimulationResult =
  res_tp_frac :: real
  res_sl_frac :: real
  res_horizon_days :: int
  res_trades :: int
  res_years :: real
  res_pnl_linear :: real
  res_pnl_linear_per_year :: real
  res_pnl_linear_pct :: real
  res_pnl_linear_per_year_pct :: real
  res_pnl_per_trade :: real
  res_pnl_per_trade_pct :: real
  res_label1_ratio :: real
  res_max_drawdown :: real
  res_max_drawdown_pct :: real
  res_trades_per_year :: "real option"
  res_sharpe_annual :: "real option"
  res_calmar_ratio :: "real option"
  res_equity_final :: real
  res_compounded_return :: real
  res_compounded_return_pct :: real
  res_compounded_cagr :: "real option"
  res_compounded_cagr_pct :: "real option"

subsection \<open>One position against one bar\<close>

text \<open>
  Lines 263 to 274: the value of \<^verbatim>\<open>out\<close> for a position at bar \<open>i\<close> with high \<open>hi\<close> and
  low \<open>lo\<close>; \<open>1\<close> is TP, \<open>-1\<close> is SL, \<open>0\<close> is neither.
\<close>

definition outcome :: "config \<Rightarrow> real \<Rightarrow> real \<Rightarrow> int \<Rightarrow> position \<Rightarrow> int" where
  "outcome cfg hi lo i p =
     (case p of (tpL, slL, expiry) \<Rightarrow>
        let hit_tp = (hi \<ge> tpL); hit_sl = (lo \<le> slL) in
        if hit_tp \<and> hit_sl then (if AMBIGUOUS_FILL cfg = ''TP_FIRST'' then 1 else - 1)
        else if hit_sl then - 1
        else if hit_tp then 1
        else if i \<ge> expiry then 0
        else 0)"

text \<open>Lines 281 to 292: the realized return \<^verbatim>\<open>r\<close> of a closed position.\<close>

definition raw_return :: "real \<Rightarrow> real \<Rightarrow> int \<Rightarrow> real" where
  "raw_return tp_frac sl_frac out =
     (if out = 1 then tp_frac else if out = - 1 then - sl_frac else 0)"

text \<open>Lines 295 and 296: position sizing and costs.\<close>

definition eff_return :: "config \<Rightarrow> real \<Rightarrow> real \<Rightarrow> real" where
  "eff_return cfg w r = w * r - w * TOTAL_COST_FRAC cfg"

text \<open>
  Lines 281 to 317: the updates made for a position that closes with \<^verbatim>\<open>out\<close>, in the
  order of the source. The trade counters move first, so Welford's update divides by
  the new count.
\<close>

definition close_position ::
  "config \<Rightarrow> real \<Rightarrow> real \<Rightarrow> real \<Rightarrow> int \<Rightarrow> sim_state \<Rightarrow> sim_state" where
  "close_position cfg tp_frac sl_frac w out s =
     (let r = raw_return tp_frac sl_frac out;
          trades1 = (if out = 1 \<or> out = - 1 then trades s + 1 else trades s);
          label1 = (if out = 1 then label1_count s + 1 else label1_count s);
          counted_for_stats = (out = 1 \<or> out = - 1);
          eff_r = eff_return cfg w r;
          pnl = pnl_linear_sum s + eff_r;
          eq_lin = max (equity_lin s + eff_r) 0;
          max_eq = max (max_equity_lin s) eq_lin;
          dd = min (dd_min s) (eq_lin - max_eq);
          mean1 = (if counted_for_stats
                   then mean_r s + (eff_r - mean_r s) / real_of_int trades1 else mean_r s);
          M21 = (if counted_for_stats
                 then M2 s + (eff_r - mean1) * (eff_r - mean1) else M2 s);
          eq_comp = max (equity_comp s * (1 + eff_r)) 0
      in s\<lparr> trades := trades1, label1_count := label1, pnl_linear_sum := pnl,
             equity_lin := eq_lin, max_equity_lin := max_eq, dd_min := dd,
             mean_r := mean1, M2 := M21, equity_comp := eq_comp \<rparr>)"

text \<open>Lines 262 to 317: the body of the loop over \<^verbatim>\<open>open_pos\<close>.\<close>

definition process_position ::
  "config \<Rightarrow> real \<Rightarrow> real \<Rightarrow> real \<Rightarrow> real \<Rightarrow> real \<Rightarrow> int \<Rightarrow> sim_state \<Rightarrow> position \<Rightarrow> sim_state" where
  "process_position cfg tp_frac sl_frac w hi lo i s p =
     (let out = outcome cfg hi lo i p in
      if out = 0 \<and> i < expiry_of p then s\<lparr> still_open := still_open s @ [p] \<rparr>
      else close_position cfg tp_frac sl_frac w out s)"

subsection \<open>One bar\<close>

text \<open>Lines 250 to 256: the position opened at bar \<open>i\<close> of a frame of \<open>n\<close> rows.\<close>

definition new_position :: "df \<Rightarrow> real \<Rightarrow> real \<Rightarrow> int \<Rightarrow> int \<Rightarrow> int \<Rightarrow> position" where
  "new_position bars tp_frac sl_frac h n i =
     (let entry_price = Open (bars ! nat i)
      in (entry_price * (1 + tp_frac), entry_price * (1 - sl_frac), min (i + h - 1) (n - 1)))"

text \<open>Lines 250 to 319: the body of the loop over \<open>i\<close>.\<close>

definition bar_step ::
  "config \<Rightarrow> df \<Rightarrow> real \<Rightarrow> real \<Rightarrow> int \<Rightarrow> real \<Rightarrow> sim_state \<Rightarrow> int \<Rightarrow> sim_state" where
  "bar_step cfg bars tp_frac sl_frac h w s i =
     (let n = int (length bars);
          s1 = s\<lparr> open_pos := open_pos s @ [new_position bars tp_frac sl_frac h n i],
                  still_open := [] \<rparr>;
          hi = High (bars ! nat i);
          lo = Low (bars ! nat i);
          s2 = foldl (process_position cfg tp_frac sl_frac w hi lo i) s1 (open_pos s1)
      in s2\<lparr> open_pos := still_open s2 \<rparr>)"

subsection \<open>The simulator\<close>

text \<open>Line 225: \<^verbatim>\<open>h = max(int(horizon_days), 1)\<close>; line 229: \<^verbatim>\<open>w = 1.0 / h\<close>.\<close>

definition clamp_horizon :: "int \<Rightarrow> int" where
  "clamp_horizon horizon_days = max horizon_days 1"

definition position_weight :: "int \<Rightarrow> real" where
  "position_weight h = 1 / real_of_int h"

text \<open>Lines 231 to 246: the locals before the loop.\<close>

definition init_state :: "real \<Rightarrow> sim_state" where
  "init_state start_equity =
     \<lparr> trades = 0, label1_count = 0, pnl_linear_sum = 0, equity_lin = 1,
       max_equity_lin = 1, dd_min = 0, mean_r = 0, M2 = 0,
       equity_comp = start_equity, open_pos = [], still_open = [] \<rparr>"

text \<open>Lines 249 to 319: the loop \<^verbatim>\<open>for i in range(1, n)\<close> run over the indices \<open>idx\<close>.\<close>

definition run_bars ::
  "config \<Rightarrow> df \<Rightarrow> real \<Rightarrow> real \<Rightarrow> int \<Rightarrow> real \<Rightarrow> sim_state \<Rightarrow> int list \<Rightarrow> sim_state" where
  "run_bars cfg bars tp_frac sl_frac h w s idx =
     foldl (bar_step cfg bars tp_frac sl_frac h w) s idx"

text \<open>Line 226: the span of the index in years, at least \<open>1e-9\<close>.\<close>

definition years_of :: "df \<Rightarrow> real" where
  "years_of bars =
     max (real_of_int (date (last bars) - date (hd bars)) / 365.25) (1 / 10 ^ 9)"

text \<open>The largest finite Python float.\<close>

definition FLOAT_MAX :: real where
  "FLOAT_MAX = (2 ^ 53 - 1) * 2 ^ 971"

text \<open>
  \<^verbatim>\<open>x ** y\<close> on Python floats with a positive base: the power, or OverflowError when the
  power is beyond the largest float.
\<close>

definition py_pow :: "real \<Rightarrow> real \<Rightarrow> py_error + real" where
  "py_pow x y = (if x powr y > FLOAT_MAX then Inl OverflowError else Inr (x powr y))"

text \<open>
  Lines 321 to 376: the derived fields. \<^verbatim>\<open>equity_comp / start_equity\<close> on Python floats
  raises ZeroDivisionError when \<^verbatim>\<open>start_equity\<close> is zero (line 345), and the power of
  line 347 raises OverflowError; its base is positive by the guard of line 346.
\<close>

definition finish ::
  "real \<Rightarrow> real \<Rightarrow> int \<Rightarrow> real \<Rightarrow> real \<Rightarrow> sim_state \<Rightarrow> py_error + SimulationResult" where
  "finish tp_frac sl_frac h years start_equity s =
     (let pnl_linear = pnl_linear_sum s;
          pnl_linear_per_year = pnl_linear / years;
          label1_ratio = (if trades s > 0
                          then real_of_int (label1_count s) / real_of_int (trades s) else 0);
          max_drawdown = min (- dd_min s) 1;
          trades_per_year = (if years > 0 then Some (real_of_int (trades s) / years) else None);
          sharpe_annual =
            (if trades s > 1 then
               (let var = M2 s / real_of_int (trades s - 1);
                    std_r = (if var > 0 then sqrt var else 0)
                in if std_r > 1 / 10 ^ 12
                   then map_option (\<lambda>tpy. (mean_r s / std_r) * sqrt tpy) trades_per_year
                   else None)
             else None)
      in if start_equity = 0 then Inl ZeroDivisionError
         else
           (let compounded_return = equity_comp s / start_equity - 1
            in case (if years > 0 \<and> compounded_return > - 0.999999
                     then (case py_pow (1 + compounded_return) (1 / years) of
                             Inl e \<Rightarrow> Inl e
                           | Inr p \<Rightarrow> Inr (Some (p - 1)))
                     else Inr None) of
                 Inl e \<Rightarrow> Inl e
               | Inr compounded_cagr \<Rightarrow>
                  (let calmar_ratio = (if max_drawdown > 1 / 10 ^ 9
                                       then Some (pnl_linear_per_year / max_drawdown) else None)
                   in Inr \<lparr> res_tp_frac = tp_frac, res_sl_frac = sl_frac, res_horizon_days = h,
                     res_trades = trades s, res_years = years,
                     res_pnl_linear = pnl_linear,
                     res_pnl_linear_per_year = pnl_linear_per_year,
                     res_pnl_linear_pct = pnl_linear * 100,
                     res_pnl_linear_per_year_pct = pnl_linear_per_year * 100,
                     res_pnl_per_trade = mean_r s,
                     res_pnl_per_trade_pct = mean_r s * 100,
                     res_label1_ratio = label1_ratio,
                     res_max_drawdown = max_drawdown,
                     res_max_drawdown_pct = max_drawdown * 100,
                     res_trades_per_year = trades_per_year,
                     res_sharpe_annual = sharpe_annual,
                     res_calmar_ratio = calmar_ratio,
                     res_equity_final = equity_comp s,
                     res_compounded_return = compounded_return,
                     res_compounded_return_pct = compounded_return * 100,
                     res_compounded_cagr = compounded_cagr,
                     res_compounded_cagr_pct = map_option (\<lambda>c. c * 100) compounded_cagr \<rparr>)))"

text \<open>
  Lines 209 to 376. \<open>Inr None\<close> is the source's \<^verbatim>\<open>return None\<close> for fewer than three
  rows; \<open>Inl\<close> is a raised exception.
\<close>

definition simulate_system_for_metrics ::
  "config \<Rightarrow> df \<Rightarrow> real \<Rightarrow> real \<Rightarrow> int \<Rightarrow> real \<Rightarrow> py_error + SimulationResult option" where
  "simulate_system_for_metrics cfg bars tp_frac sl_frac horizon_days start_equity =
     (let n = int (length bars) in
      if n < 3 then Inr None
      else
        (let h = clamp_horizon horizon_days;
             years = years_of bars;
             w = position_weight h;
             s = run_bars cfg bars tp_frac sl_frac h w (init_state start_equity) [1..n - 1]
         in case finish tp_frac sl_frac h years start_equity s of
              Inl e \<Rightarrow> Inl e
            | Inr r \<Rightarrow> Inr (Some r)))"

subsection \<open>The grid\<close>

text \<open>
  \<^verbatim>\<open>np.linspace(start, stop, num)\<close>: \<open>num\<close> evenly spaced values from \<open>start\<close> to \<open>stop\<close>
  inclusive; a negative \<open>num\<close> raises ValueError, \<open>num = 1\<close> gives \<open>[start]\<close>.
\<close>

definition linspace :: "real \<Rightarrow> real \<Rightarrow> int \<Rightarrow> py_error + real list" where
  "linspace start stop num =
     (if num < 0 then Inl ValueError
      else if num = 1 then Inr [start]
      else Inr (map (\<lambda>k. start + real_of_int k * ((stop - start) / real_of_int (num - 1)))
                    [0..num - 1]))"

text \<open>\<^verbatim>\<open>np.arange(lo, hi)\<close> on integers: \<open>lo, lo + 1, ..., hi - 1\<close>, empty when \<open>hi \<le> lo\<close>.\<close>

definition arange :: "int \<Rightarrow> int \<Rightarrow> int list" where
  "arange lo hi = [lo..hi - 1]"

text \<open>Lines 419 to 443: the appended row copies every key of the result and adds the spread.\<close>

record grid_row =
  stats :: SimulationResult
  spread :: real

definition make_row :: "SimulationResult \<Rightarrow> grid_row" where
  "make_row st = \<lparr> stats = st, spread = res_tp_frac st - res_sl_frac st \<rparr>"

text \<open>
  Lines 395 to 453: the three nested loops, run over the combinations in enumeration
  order. A combination whose simulation returns \<^verbatim>\<open>None\<close> is skipped by \<^verbatim>\<open>continue\<close>;
  an exception ends the run.
\<close>

fun grid_loop ::
  "config \<Rightarrow> df \<Rightarrow> (real \<times> real \<times> int) list \<Rightarrow> grid_row list \<Rightarrow> py_error + grid_row list" where
  "grid_loop cfg bars [] results = Inr results"
| "grid_loop cfg bars ((tp, sl, h) # rest) results =
     (case simulate_system_for_metrics cfg bars tp sl h (START_CAPITAL cfg) of
        Inl e \<Rightarrow> Inl e
      | Inr None \<Rightarrow> grid_loop cfg bars rest results
      | Inr (Some st) \<Rightarrow> grid_loop cfg bars rest (results @ [make_row st]))"

definition combos :: "real list \<Rightarrow> real list \<Rightarrow> int list \<Rightarrow> (real \<times> real \<times> int) list" where
  "combos tp_values sl_values horizon_values =
     concat (map (\<lambda>tp. concat (map (\<lambda>sl. map (\<lambda>h. (tp, sl, h)) horizon_values) sl_values))
                 tp_values)"

text \<open>Lines 383 to 459; the empty frame returned for no results is the empty list.\<close>

definition run_grid_search :: "config \<Rightarrow> df \<Rightarrow> py_error + grid_row list" where
  "run_grid_search cfg bars =
     (case linspace (TP_MIN cfg) (TP_MAX cfg) (TP_STEPS cfg) of
        Inl e \<Rightarrow> Inl e
      | Inr tp_values \<Rightarrow>
          (case linspace (SL_MIN cfg) (SL_MAX cfg) (SL_STEPS cfg) of
             Inl e \<Rightarrow> Inl e
           | Inr sl_values \<Rightarrow>
               grid_loop cfg bars
                 (combos tp_values sl_values (arange (HORIZON_MIN cfg) (HORIZON_MAX cfg + 1)))
                 []))"

subsection \<open>Observations of a run\<close>

text \<open>
  These definitions are not part of the program; the theorems use them to speak about
  it. A position stays open at bar \<open>i\<close> when the test of line 276 holds; otherwise it
  resolves at this bar.
\<close>

definition stays_open :: "config \<Rightarrow> real \<Rightarrow> real \<Rightarrow> int \<Rightarrow> position \<Rightarrow> bool" where
  "stays_open cfg hi lo i p \<longleftrightarrow> outcome cfg hi lo i p = 0 \<and> i < expiry_of p"

text \<open>The values of \<^verbatim>\<open>out\<close> of the positions that resolve at one bar, in loop order.\<close>

definition bar_outcomes :: "config \<Rightarrow> real \<Rightarrow> real \<Rightarrow> int \<Rightarrow> position list \<Rightarrow> int list" where
  "bar_outcomes cfg hi lo i ps =
     map (outcome cfg hi lo i) (filter (\<lambda>p. \<not> stays_open cfg hi lo i p) ps)"

text \<open>The same for the bars \<open>idx\<close> processed from state \<open>s\<close>: every resolution of the run.\<close>

fun resolution_log ::
  "config \<Rightarrow> df \<Rightarrow> real \<Rightarrow> real \<Rightarrow> int \<Rightarrow> real \<Rightarrow> sim_state \<Rightarrow> int list \<Rightarrow> int list" where
  "resolution_log cfg bars tp_frac sl_frac h w s [] = []"
| "resolution_log cfg bars tp_frac sl_frac h w s (i # idx) =
     bar_outcomes cfg (High (bars ! nat i)) (Low (bars ! nat i)) i
       (open_pos s @ [new_position bars tp_frac sl_frac h (int (length bars)) i])
     @ resolution_log cfg bars tp_frac sl_frac h w (bar_step cfg bars tp_frac sl_frac h w s i) idx"

text \<open>The number of TP and SL entries among logged outcomes.\<close>

definition count_trades :: "int list \<Rightarrow> int" where
  "count_trades outs = int (length (filter (\<lambda>out. out = 1 \<or> out = - 1) outs))"

text \<open>Three flat bars on consecutive days: nothing ever hits.\<close>

definition flat_bars :: df where
  "flat_bars =
     [\<lparr>date = 0, Open = 100, High = 100, Low = 100, Close = 100\<rparr>,
      \<lparr>date = 1, Open = 100, High = 100, Low = 100, Close = 100\<rparr>,
      \<lparr>date = 2, Open = 100, High = 100, Low = 100, Close = 100\<rparr>]"

text \<open>
  A crash on the second bar that stops the position out at a stop-loss fraction just
  below \<open>1 - TOTAL_COST_FRAC\<close>, then a flat last bar.
\<close>

definition near_total_loss_bars :: df where
  "near_total_loss_bars =
     [\<lparr>date = 0, Open = 100, High = 100, Low = 100, Close = 100\<rparr>,
      \<lparr>date = 1, Open = 100, High = 100, Low = 1 / 10, Close = 1\<rparr>,
      \<lparr>date = 2, Open = 1, High = 1, Low = 1, Close = 1\<rparr>]"

text \<open>A configuration whose maxima lie below the minima and whose horizons are not positive.\<close>

definition inverted_config :: config where
  "inverted_config =
     module_config\<lparr> TP_MIN := 0.40, TP_MAX := 0.005, TP_STEPS := 2,
                    SL_MIN := 0.20, SL_MAX := 0.005, SL_STEPS := 1,
                    HORIZON_MIN := - 1, HORIZON_MAX := 0 \<rparr>"

text \<open>
  The test of lines 346 and 347 that makes the power raise: the guard passes and the power
  is beyond the largest float.
\<close>

definition cagr_overflows :: "real \<Rightarrow> real \<Rightarrow> sim_state \<Rightarrow> bool" where
  "cagr_overflows years start_equity s \<longleftrightarrow>
     years > 0 \<and> equity_comp s / start_equity - 1 > - 0.999999
     \<and> (1 + (equity_comp s / start_equity - 1)) powr (1 / years) > FLOAT_MAX"

text \<open>The state in which a simulation on \<open>bars\<close> leaves its loop.\<close>

definition final_state :: "config \<Rightarrow> df \<Rightarrow> real \<Rightarrow> real \<Rightarrow> int \<Rightarrow> real \<Rightarrow> sim_state" where
  "final_state cfg bars tp_frac sl_frac horizon_days start_equity =
     run_bars cfg bars tp_frac sl_frac (clamp_horizon horizon_days)
       (position_weight (clamp_horizon horizon_days)) (init_state start_equity)
       [1..int (length bars) - 1]"

text \<open>
  Inputs that cover the data model: dates strictly ascending, a take-profit fraction
  between 0 and 1, a stop-loss fraction that is not negative, a cost that is not negative
  and a positive starting equity.
\<close>

definition in_data_model :: "config \<Rightarrow> df \<Rightarrow> real \<Rightarrow> real \<Rightarrow> real \<Rightarrow> bool" where
  "in_data_model cfg bars tp_frac sl_frac start_equity \<longleftrightarrow>
     sorted_wrt (<) (map date bars) \<and> 0 \<le> tp_frac \<and> tp_frac \<le> 1 \<and> 0 \<le> sl_frac
     \<and> 0 \<le> TOTAL_COST_FRAC cfg \<and> 0 < start_equity"

text \<open>The effective return of a resolution with outcome \<open>out\<close>, lines 281 to 296.\<close>

definition eff_of :: "config \<Rightarrow> real \<Rightarrow> real \<Rightarrow> real \<Rightarrow> int \<Rightarrow> real" where
  "eff_of cfg tp_frac sl_frac w out = eff_return cfg w (raw_return tp_frac sl_frac out)"

text \<open>Lines 316 and 317 on real numbers: the update of the compounding equity.\<close>

definition comp_step :: "real \<Rightarrow> real \<Rightarrow> real" where
  "comp_step e eff_r = max (e * (1 + eff_r)) 0"

text \<open>What a result row and a combination say about fractions and horizon.\<close>

definition row_key :: "grid_row \<Rightarrow> real \<times> real \<times> int" where
  "row_key row = (res_tp_frac (stats row), res_sl_frac (stats row), res_horizon_days (stats row))"

definition clamped_combo :: "real \<times> real \<times> int \<Rightarrow> real \<times> real \<times> int" where
  "clamped_combo c = (case c of (tp, sl, h) \<Rightarrow> (tp, sl, max h 1))"


text \<open>
  Bar 0, then 1009 bars whose high doubles the open, then one bar whose low falls to a
  thousandth of the open; the dates are the consecutive days 0 to 1010.
\<close>

definition spike_bars :: df where
  "spike_bars =
     map (\<lambda>d. \<lparr>date = d, Open = 100, High = (if d \<le> 1009 then 200 else 100),
                Low = (if d \<le> 1009 then 100 else 1 / 10), Close = 100\<rparr>)
         [0..1010]"

subsection \<open>The compounding equity in float arithmetic\<close>

text \<open>
  Lines 316 and 317 once more, now with the values a Python float has beyond the finite
  ones. A product beyond the largest float is an infinity; an infinity times zero is NaN.
  The digits of finite values are not rounded.
\<close>

datatype pyfloat = Finite real | PosInf | NegInf | NaN

text \<open>The float that an operation with exact result \<open>x\<close> returns.\<close>

definition py_range :: "real \<Rightarrow> pyfloat" where
  "py_range x = (if x > FLOAT_MAX then PosInf else if x < - FLOAT_MAX then NegInf else Finite x)"

text \<open>\<^verbatim>\<open>e * b\<close> for a float \<open>e\<close> and a finite float \<open>b\<close>.\<close>

fun py_mul :: "pyfloat \<Rightarrow> real \<Rightarrow> pyfloat" where
  "py_mul (Finite a) b = py_range (a * b)"
| "py_mul PosInf b = (if b > 0 then PosInf else if b < 0 then NegInf else NaN)"
| "py_mul NegInf b = (if b > 0 then NegInf else if b < 0 then PosInf else NaN)"
| "py_mul NaN b = NaN"

text \<open>
  \<^verbatim>\<open>max(e, 0.0)\<close>: Python's \<^verbatim>\<open>max\<close> keeps its first argument unless a later one compares
  greater, and no comparison with NaN holds, so a NaN first argument is returned.
\<close>

fun py_max_zero :: "pyfloat \<Rightarrow> pyfloat" where
  "py_max_zero (Finite a) = Finite (if 0 > a then 0 else a)"
| "py_max_zero PosInf = PosInf"
| "py_max_zero NegInf = Finite 0"
| "py_max_zero NaN = NaN"

text \<open>Lines 316 and 317: \<^verbatim>\<open>equity_comp *= (1.0 + eff_r)\<close>, then \<^verbatim>\<open>max(equity_comp, 0.0)\<close>.\<close>

definition comp_update :: "pyfloat \<Rightarrow> real \<Rightarrow> pyfloat" where
  "comp_update e eff_r = py_max_zero (py_mul e (1 + eff_r))"

text \<open>
  The compounding equity at the end of a simulation: the update applied, from the starting
  equity, to the effective return of every resolution in the order of the run. Which
  positions resolve, and how, depends on the bars and the levels only.
\<close>

definition equity_comp_float :: "config \<Rightarrow> df \<Rightarrow> real \<Rightarrow> real \<Rightarrow> int \<Rightarrow> real \<Rightarrow> pyfloat" where
  "equity_comp_float cfg bars tp_frac sl_frac horizon_days start_equity =
     (let h = clamp_horizon horizon_days; w = position_weight h
      in foldl comp_update (Finite start_equity)
           (map (eff_of cfg tp_frac sl_frac w)
              (resolution_log cfg bars tp_frac sl_frac h w (init_state start_equity)
                 [1..int (length bars) - 1])))"

section \<open>Properties\<close>

subsection \<open>Closing one position\<close>

lemma outcome_cases:
  "outcome cfg hi lo i p = 1 \<or> outcome cfg hi lo i p = - 1 \<or> outcome cfg hi lo i p = 0"
  by (cases p) (simp add: outcome_def Let_def)


lemma close_position_still_open [simp]:
  "still_open (close_position cfg tp_frac sl_frac w out s) = still_open s"
  by (simp add: close_position_def Let_def)

lemma close_position_open_pos [simp]:
  "open_pos (close_position cfg tp_frac sl_frac w out s) = open_pos s"
  by (simp add: close_position_def Let_def)

lemma close_position_trades:
  "trades (close_position cfg tp_frac sl_frac w out s)
     = trades s + (if out = 1 \<or> out = - 1 then 1 else 0)"
  by (simp add: close_position_def Let_def)

lemma process_position_stays:
  "stays_open cfg hi lo i p \<Longrightarrow>
   process_position cfg tp_frac sl_frac w hi lo i s p = s\<lparr> still_open := still_open s @ [p] \<rparr>"
  by (simp add: process_position_def stays_open_def)

lemma process_position_closes:
  "\<not> stays_open cfg hi lo i p \<Longrightarrow>
   process_position cfg tp_frac sl_frac w hi lo i s p
     = close_position cfg tp_frac sl_frac w (outcome cfg hi lo i p) s"
  by (auto simp add: process_position_def stays_open_def Let_def)

subsection \<open>The loop over the open positions\<close>

lemma inner_loop_still_open:
  "still_open (foldl (process_position cfg tp_frac sl_frac w hi lo i) s ps)
     = still_open s @ filter (stays_open cfg hi lo i) ps"
proof (induction ps arbitrary: s)
  case Nil
  then show ?case by simp
next
  case (Cons p ps)
  show ?case
    by (cases "stays_open cfg hi lo i p")
       (simp_all add: Cons.IH process_position_stays process_position_closes)
qed

lemma inner_loop_trades:
  "trades (foldl (process_position cfg tp_frac sl_frac w hi lo i) s ps)
     = trades s + count_trades (bar_outcomes cfg hi lo i ps)"
proof (induction ps arbitrary: s)
  case Nil
  then show ?case by (simp add: count_trades_def bar_outcomes_def)
next
  case (Cons p ps)
  show ?case
    by (cases "stays_open cfg hi lo i p")
       (simp_all add: Cons.IH process_position_stays process_position_closes
          close_position_trades count_trades_def bar_outcomes_def)
qed

subsection \<open>The loop over the bars\<close>

lemma new_position_expiry:
  "expiry_of (new_position bars tp_frac sl_frac h n i) = min (i + h - 1) (n - 1)"
  by (simp add: new_position_def expiry_of_def Let_def)

lemma bar_step_open_pos:
  "open_pos (bar_step cfg bars tp_frac sl_frac h w s i)
     = filter (stays_open cfg (High (bars ! nat i)) (Low (bars ! nat i)) i)
         (open_pos s @ [new_position bars tp_frac sl_frac h (int (length bars)) i])"
  by (simp add: bar_step_def Let_def inner_loop_still_open)

lemma bar_step_trades:
  "trades (bar_step cfg bars tp_frac sl_frac h w s i)
     = trades s + count_trades (bar_outcomes cfg (High (bars ! nat i)) (Low (bars ! nat i)) i
         (open_pos s @ [new_position bars tp_frac sl_frac h (int (length bars)) i]))"
  by (simp add: bar_step_def Let_def inner_loop_trades del: foldl_append)

lemma run_bars_Cons:
  "run_bars cfg bars tp_frac sl_frac h w s (i # idx)
     = run_bars cfg bars tp_frac sl_frac h w (bar_step cfg bars tp_frac sl_frac h w s i) idx"
  by (simp add: run_bars_def)

lemma run_bars_snoc:
  "run_bars cfg bars tp_frac sl_frac h w s (idx @ [i])
     = bar_step cfg bars tp_frac sl_frac h w (run_bars cfg bars tp_frac sl_frac h w s idx) i"
  by (simp add: run_bars_def)

lemma count_trades_append: "count_trades (xs @ ys) = count_trades xs + count_trades ys"
  by (simp add: count_trades_def)

lemma run_bars_trades:
  "trades (run_bars cfg bars tp_frac sl_frac h w s idx)
     = trades s + count_trades (resolution_log cfg bars tp_frac sl_frac h w s idx)"
proof (induction idx arbitrary: s)
  case Nil
  then show ?case by (simp add: run_bars_def count_trades_def)
next
  case (Cons i idx)
  show ?case
    by (simp add: run_bars_Cons Cons.IH bar_step_trades count_trades_append)
qed

subsection \<open>The derived fields and the whole simulation\<close>

lemma years_of_pos: "0 < years_of bars"
  by (simp add: years_of_def max_def)

lemma clamp_horizon_ge1: "1 \<le> clamp_horizon horizon_days"
  by (simp add: clamp_horizon_def)

lemma finish_zero:
  "finish tp_frac sl_frac h years 0 s = Inl ZeroDivisionError"
  by (simp add: finish_def Let_def)

lemma finish_overflow:
  "start_equity \<noteq> 0 \<Longrightarrow> cagr_overflows years start_equity s \<Longrightarrow>
   finish tp_frac sl_frac h years start_equity s = Inl OverflowError"
  by (simp add: finish_def Let_def cagr_overflows_def py_pow_def)

lemma finish_ok:
  "start_equity \<noteq> 0 \<Longrightarrow> \<not> cagr_overflows years start_equity s \<Longrightarrow>
   \<exists>r. finish tp_frac sl_frac h years start_equity s = Inr r"
  by (simp add: finish_def Let_def cagr_overflows_def py_pow_def)

lemma finish_Inr:
  assumes "finish tp_frac sl_frac h years start_equity s = Inr r"
  shows "start_equity \<noteq> 0" and "\<not> cagr_overflows years start_equity s"
proof -
  show nz: "start_equity \<noteq> 0"
    using assms by (cases "start_equity = 0") (simp_all add: finish_zero)
  show "\<not> cagr_overflows years start_equity s"
    using assms finish_overflow [OF nz] by (cases "cagr_overflows years start_equity s") simp_all
qed

lemma finish_fields:
  assumes "finish tp_frac sl_frac h years start_equity s = Inr r"
  shows "res_horizon_days r = h" "res_trades r = trades s" "res_years r = years"
    "res_equity_final r = equity_comp s"
    "res_trades_per_year r = (if years > 0 then Some (real_of_int (trades s) / years) else None)"
    "res_compounded_return r = equity_comp s / start_equity - 1"
    "res_compounded_cagr r =
       (if years > 0 \<and> res_compounded_return r > - 0.999999
        then Some ((1 + res_compounded_return r) powr (1 / years) - 1) else None)"
    "res_tp_frac r = tp_frac" "res_sl_frac r = sl_frac"
proof -
  note nz = finish_Inr(1) [OF assms]
  from finish_Inr(2) [OF assms]
  have no: "years > 0 \<and> equity_comp s / start_equity - 1 > - 0.999999
            \<longrightarrow> \<not> (equity_comp s / start_equity) powr (1 / years) > FLOAT_MAX"
    by (simp add: cagr_overflows_def)
  from assms have r: "r = projr (finish tp_frac sl_frac h years start_equity s)" by simp
  show "res_horizon_days r = h" "res_trades r = trades s" "res_years r = years"
    "res_equity_final r = equity_comp s"
    "res_trades_per_year r = (if years > 0 then Some (real_of_int (trades s) / years) else None)"
    "res_compounded_return r = equity_comp s / start_equity - 1"
    "res_compounded_cagr r =
       (if years > 0 \<and> res_compounded_return r > - 0.999999
        then Some ((1 + res_compounded_return r) powr (1 / years) - 1) else None)"
    "res_tp_frac r = tp_frac" "res_sl_frac r = sl_frac"
    unfolding r using nz no by (simp_all add: finish_def Let_def py_pow_def)
qed

lemma simulate_short:
  "length bars < 3 \<Longrightarrow>
   simulate_system_for_metrics cfg bars tp_frac sl_frac horizon_days start_equity = Inr None"
  by (simp add: simulate_system_for_metrics_def)

lemma simulate_long:
  "3 \<le> length bars \<Longrightarrow>
   simulate_system_for_metrics cfg bars tp_frac sl_frac horizon_days start_equity =
     (case finish tp_frac sl_frac (clamp_horizon horizon_days) (years_of bars) start_equity
             (final_state cfg bars tp_frac sl_frac horizon_days start_equity) of
        Inl e \<Rightarrow> Inl e | Inr r \<Rightarrow> Inr (Some r))"
  by (simp add: simulate_system_for_metrics_def final_state_def Let_def)

lemma simulate_Some:
  assumes "simulate_system_for_metrics cfg bars tp_frac sl_frac horizon_days start_equity
             = Inr (Some r)"
  shows "3 \<le> length bars"
    and "finish tp_frac sl_frac (clamp_horizon horizon_days) (years_of bars) start_equity
             (final_state cfg bars tp_frac sl_frac horizon_days start_equity) = Inr r"
proof -
  show len: "3 \<le> length bars"
    using assms by (cases "length bars < 3") (simp_all add: simulate_short)
  show "finish tp_frac sl_frac (clamp_horizon horizon_days) (years_of bars) start_equity
             (final_state cfg bars tp_frac sl_frac horizon_days start_equity) = Inr r"
    using assms by (simp add: simulate_long [OF len] split: sum.splits)
qed

lemma simulate_Some_run:
  assumes "simulate_system_for_metrics cfg bars tp_frac sl_frac horizon_days start_equity
             = Inr (Some r)"
  shows "finish tp_frac sl_frac (clamp_horizon horizon_days) (years_of bars) start_equity
             (run_bars cfg bars tp_frac sl_frac (clamp_horizon horizon_days)
                (position_weight (clamp_horizon horizon_days)) (init_state start_equity)
                [1..int (length bars) - 1]) = Inr r"
  using simulate_Some(2) [OF assms] by (simp add: final_state_def)



lemma simulate_returns:
  assumes "3 \<le> length bars" and "start_equity \<noteq> 0"
    and "\<not> cagr_overflows (years_of bars) start_equity
           (final_state cfg bars tp_frac sl_frac horizon_days start_equity)"
  shows "\<exists>r. simulate_system_for_metrics cfg bars tp_frac sl_frac horizon_days start_equity
               = Inr (Some r)"
proof -
  from finish_ok [OF assms(2,3)] obtain r where
    "finish tp_frac sl_frac (clamp_horizon horizon_days) (years_of bars) start_equity
             (final_state cfg bars tp_frac sl_frac horizon_days start_equity) = Inr r"
    by blast
  then show ?thesis by (simp add: simulate_long [OF assms(1)])
qed


lemma bar_step_open_expiry:
  "q \<in> set (open_pos (bar_step cfg bars tp_frac sl_frac h w s i)) \<Longrightarrow> i < expiry_of q"
proof -
  assume "q \<in> set (open_pos (bar_step cfg bars tp_frac sl_frac h w s i))"
  then have "stays_open cfg (High (bars ! nat i)) (Low (bars ! nat i)) i q"
    unfolding bar_step_open_pos set_filter by blast
  then show "i < expiry_of q" by (simp add: stays_open_def)
qed

lemma bar_step_expiry_bound:
  assumes "\<forall>p \<in> set (open_pos s). expiry_of p \<le> int (length bars) - 1"
    and "q \<in> set (open_pos (bar_step cfg bars tp_frac sl_frac h w s i))"
  shows "expiry_of q \<le> int (length bars) - 1"
proof -
  from assms(2) have "q \<in> set (open_pos s)
      \<or> q = new_position bars tp_frac sl_frac h (int (length bars)) i"
    unfolding bar_step_open_pos set_filter by auto
  then show ?thesis using assms(1) by (auto simp add: new_position_expiry)
qed

lemma run_bars_expiry_bound:
  assumes "\<forall>p \<in> set (open_pos s). expiry_of p \<le> int (length bars) - 1"
  shows "\<forall>q \<in> set (open_pos (run_bars cfg bars tp_frac sl_frac h w s idx)).
           expiry_of q \<le> int (length bars) - 1"
  using assms
proof (induction idx arbitrary: s)
  case Nil
  then show ?case by (simp add: run_bars_def)
next
  case (Cons i idx)
  have "\<forall>p \<in> set (open_pos (bar_step cfg bars tp_frac sl_frac h w s i)).
          expiry_of p \<le> int (length bars) - 1"
    using bar_step_expiry_bound [OF Cons.prems] by blast
  then show ?case using Cons.IH by (simp add: run_bars_Cons)
qed

lemma run_all_closed:
  assumes "2 \<le> length bars"
  shows "open_pos (run_bars cfg bars tp_frac sl_frac h w (init_state start_equity)
                     [1..int (length bars) - 1]) = []"
proof -
  let ?n = "int (length bars)"
  let ?s = "run_bars cfg bars tp_frac sl_frac h w (init_state start_equity) [1..?n - 1 - 1]"
  have split: "[1..?n - 1] = [1..?n - 1 - 1] @ [?n - 1]"
    using assms by (intro upto_rec2) simp
  have bound: "\<forall>q \<in> set (open_pos (bar_step cfg bars tp_frac sl_frac h w ?s (?n - 1))).
                 expiry_of q \<le> ?n - 1"
    using run_bars_expiry_bound [of "init_state start_equity" bars cfg tp_frac sl_frac h w
            "[1..?n - 1 - 1] @ [?n - 1]"]
    by (simp add: init_state_def run_bars_snoc)
  have none: "\<And>q. q \<in> set (open_pos (bar_step cfg bars tp_frac sl_frac h w ?s (?n - 1))) \<Longrightarrow> False"
  proof -
    fix q
    assume q: "q \<in> set (open_pos (bar_step cfg bars tp_frac sl_frac h w ?s (?n - 1)))"
    from bar_step_open_expiry [OF q] bound q show False by fastforce
  qed
  have "open_pos (bar_step cfg bars tp_frac sl_frac h w ?s (?n - 1)) = []"
  proof (cases "open_pos (bar_step cfg bars tp_frac sl_frac h w ?s (?n - 1))")
    case Nil
    then show ?thesis .
  next
    case (Cons q qs)
    then have "q \<in> set (open_pos (bar_step cfg bars tp_frac sl_frac h w ?s (?n - 1)))" by simp
    then show ?thesis using none by blast
  qed
  then show ?thesis by (simp only: split run_bars_snoc)
qed

subsection \<open>The compounding equity of a run\<close>

lemma close_position_equity_comp:
  "equity_comp (close_position cfg tp_frac sl_frac w out s)
     = comp_step (equity_comp s) (eff_of cfg tp_frac sl_frac w out)"
  by (simp add: close_position_def comp_step_def eff_of_def Let_def)

lemma inner_loop_equity_comp:
  "equity_comp (foldl (process_position cfg tp_frac sl_frac w hi lo i) s ps)
     = foldl comp_step (equity_comp s) (map (eff_of cfg tp_frac sl_frac w) (bar_outcomes cfg hi lo i ps))"
proof (induction ps arbitrary: s)
  case Nil
  then show ?case by (simp add: bar_outcomes_def)
next
  case (Cons p ps)
  show ?case
    by (cases "stays_open cfg hi lo i p")
       (simp_all add: Cons.IH process_position_stays process_position_closes
          close_position_equity_comp bar_outcomes_def)
qed

lemma bar_step_equity_comp:
  "equity_comp (bar_step cfg bars tp_frac sl_frac h w s i)
     = foldl comp_step (equity_comp s)
         (map (eff_of cfg tp_frac sl_frac w)
            (bar_outcomes cfg (High (bars ! nat i)) (Low (bars ! nat i)) i
               (open_pos s @ [new_position bars tp_frac sl_frac h (int (length bars)) i])))"
  by (simp add: bar_step_def Let_def inner_loop_equity_comp del: foldl_append)

lemma run_bars_equity_comp:
  "equity_comp (run_bars cfg bars tp_frac sl_frac h w s idx)
     = foldl comp_step (equity_comp s)
         (map (eff_of cfg tp_frac sl_frac w) (resolution_log cfg bars tp_frac sl_frac h w s idx))"
proof (induction idx arbitrary: s)
  case Nil
  then show ?case by (simp add: run_bars_def)
next
  case (Cons i idx)
  show ?case
    by (simp add: run_bars_Cons Cons.IH bar_step_equity_comp)
qed

lemma bar_outcomes_length:
  "length (bar_outcomes cfg hi lo i ps) + length (filter (stays_open cfg hi lo i) ps) = length ps"
  by (simp add: bar_outcomes_def add.commute sum_length_filter_compl)

lemma resolution_log_length:
  "length (resolution_log cfg bars tp_frac sl_frac h w s idx)
     + length (open_pos (run_bars cfg bars tp_frac sl_frac h w s idx))
   = length (open_pos s) + length idx"
proof (induction idx arbitrary: s)
  case Nil
  then show ?case by (simp add: run_bars_def)
next
  case (Cons i idx)
  have "length (bar_outcomes cfg (High (bars ! nat i)) (Low (bars ! nat i)) i
                  (open_pos s @ [new_position bars tp_frac sl_frac h (int (length bars)) i]))
        + length (open_pos (bar_step cfg bars tp_frac sl_frac h w s i))
        = length (open_pos s) + 1"
    using bar_outcomes_length
            [of cfg "High (bars ! nat i)" "Low (bars ! nat i)" i
                "open_pos s @ [new_position bars tp_frac sl_frac h (int (length bars)) i]"]
    by (simp add: bar_step_open_pos)
  with Cons.IH [of "bar_step cfg bars tp_frac sl_frac h w s i"] show ?case
    by (simp add: run_bars_Cons)
qed

lemma comp_step_bound:
  assumes "0 \<le> e" and "1 + r \<le> g" and "0 \<le> g"
  shows "0 \<le> comp_step e r" and "comp_step e r \<le> e * g"
proof -
  show "0 \<le> comp_step e r" by (simp add: comp_step_def)
  have "e * (1 + r) \<le> e * g" by (rule mult_left_mono [OF assms(2) assms(1)])
  moreover have "0 \<le> e * g" using assms(1,3) by simp
  ultimately show "comp_step e r \<le> e * g" by (simp add: comp_step_def)
qed

lemma comp_fold_bound:
  assumes "0 \<le> e" and "\<forall>r \<in> set rs. 1 + r \<le> g" and "0 \<le> g"
  shows "0 \<le> foldl comp_step e rs \<and> foldl comp_step e rs \<le> e * g ^ length rs"
  using assms(1,2)
proof (induction rs arbitrary: e)
  case Nil
  then show ?case by simp
next
  case (Cons r rs)
  from Cons.prems have r: "1 + r \<le> g" by simp
  note b = comp_step_bound [OF Cons.prems(1) r assms(3)]
  from Cons.prems have "\<forall>r \<in> set rs. 1 + r \<le> g" by simp
  from Cons.IH [OF b(1) this]
  have ih: "0 \<le> foldl comp_step (comp_step e r) rs"
    "foldl comp_step (comp_step e r) rs \<le> comp_step e r * g ^ length rs"
    by simp_all
  have "comp_step e r * g ^ length rs \<le> (e * g) * g ^ length rs"
    using b(2) assms(3) by (intro mult_right_mono) simp_all
  with ih show ?case by (simp add: mult.assoc)
qed

lemma eff_of_bound:
  assumes "0 \<le> w" and "w \<le> 1" and "0 \<le> tp_frac" and "tp_frac \<le> 1" and "0 \<le> sl_frac"
    and "0 \<le> TOTAL_COST_FRAC cfg"
  shows "1 + eff_of cfg tp_frac sl_frac w out \<le> 2"
proof -
  have r: "raw_return tp_frac sl_frac out \<le> 1"
    using assms(3,4,5) by (simp add: raw_return_def)
  have "w * raw_return tp_frac sl_frac out \<le> 1"
  proof (cases "0 \<le> raw_return tp_frac sl_frac out")
    case True
    then have "w * raw_return tp_frac sl_frac out \<le> 1 * 1"
      using assms(1,2) r by (intro mult_mono) simp_all
    then show ?thesis by simp
  next
    case False
    then have "w * raw_return tp_frac sl_frac out \<le> 0"
      using assms(1) by (simp add: mult_nonneg_nonpos)
    then show ?thesis by simp
  qed
  moreover have "0 \<le> w * TOTAL_COST_FRAC cfg" using assms(1,6) by simp
  ultimately show ?thesis by (simp add: eff_of_def eff_return_def)
qed

lemma position_weight_range:
  "0 \<le> position_weight (clamp_horizon horizon_days)"
  "position_weight (clamp_horizon horizon_days) \<le> 1"
  using clamp_horizon_ge1 [of horizon_days] by (simp_all add: position_weight_def)

lemma final_equity_bound:
  assumes "in_data_model cfg bars tp_frac sl_frac start_equity"
  shows "0 \<le> equity_comp (final_state cfg bars tp_frac sl_frac horizon_days start_equity)"
    and "equity_comp (final_state cfg bars tp_frac sl_frac horizon_days start_equity)
           \<le> start_equity * 2 ^ (length bars - 1)"
proof -
  let ?h = "clamp_horizon horizon_days"
  let ?w = "position_weight ?h"
  let ?idx = "[1..int (length bars) - 1]"
  let ?log = "resolution_log cfg bars tp_frac sl_frac ?h ?w (init_state start_equity) ?idx"
  let ?rs = "map (eff_of cfg tp_frac sl_frac ?w) ?log"
  from assms have dm: "0 \<le> tp_frac" "tp_frac \<le> 1" "0 \<le> sl_frac" "0 \<le> TOTAL_COST_FRAC cfg"
    "0 < start_equity"
    by (simp_all add: in_data_model_def)
  have eq: "equity_comp (final_state cfg bars tp_frac sl_frac horizon_days start_equity)
              = foldl comp_step start_equity ?rs"
    by (simp add: final_state_def run_bars_equity_comp init_state_def)
  have all: "\<forall>r \<in> set ?rs. 1 + r \<le> 2"
    using eff_of_bound [OF position_weight_range dm(1-4)] by auto
  have start: "0 \<le> start_equity" using dm(5) by simp
  from comp_fold_bound [OF start all]
  have b: "0 \<le> foldl comp_step start_equity ?rs"
    "foldl comp_step start_equity ?rs \<le> start_equity * 2 ^ length ?rs"
    by simp_all
  have "length ?log \<le> length ?idx"
    using resolution_log_length [of cfg bars tp_frac sl_frac ?h ?w "init_state start_equity" ?idx]
    by (simp add: init_state_def)
  then have len: "length ?rs \<le> length bars - 1" by simp
  have "(2::real) ^ length ?rs \<le> 2 ^ (length bars - 1)"
    using len by (intro power_increasing) simp_all
  then have "start_equity * 2 ^ length ?rs \<le> start_equity * 2 ^ (length bars - 1)"
    using start by (intro mult_left_mono) simp_all
  with b eq show "0 \<le> equity_comp (final_state cfg bars tp_frac sl_frac horizon_days start_equity)"
    and "equity_comp (final_state cfg bars tp_frac sl_frac horizon_days start_equity)
           \<le> start_equity * 2 ^ (length bars - 1)"
    by simp_all
qed

subsection \<open>No overflow inside the data model\<close>

lemma float_max_ge: "(2::real) ^ 366 \<le> FLOAT_MAX"
  by (simp add: FLOAT_MAX_def)

lemma float_max_lt: "FLOAT_MAX < (2::real) ^ 1024"
proof -
  have "((2::real) ^ 53 - 1) * 2 ^ 971 < 2 ^ 53 * 2 ^ 971"
    by (intro mult_strict_right_mono) simp_all
  also have "\<dots> = 2 ^ (53 + 971)" by (rule power_add [symmetric])
  finally show ?thesis by (simp add: FLOAT_MAX_def)
qed

lemma float_max_pos: "0 < FLOAT_MAX"
  by (simp add: FLOAT_MAX_def)

lemma ascending_dates_span:
  "sorted_wrt (<) (map date (b # bs)) \<Longrightarrow> date b + int (length bs) \<le> date (last (b # bs))"
proof (induction bs arbitrary: b)
  case Nil
  then show ?case by simp
next
  case (Cons c cs)
  from Cons.prems have "date b < date c" and "sorted_wrt (<) (map date (c # cs))"
    by simp_all
  with Cons.IH [of c] show ?case by simp
qed

lemma years_of_lower:
  assumes "sorted_wrt (<) (map date bars)" and "3 \<le> length bars"
  shows "real (length bars - 1) / 365.25 \<le> years_of bars"
proof -
  from assms(2) obtain b bs where bars: "bars = b # bs" by (cases bars) auto
  from ascending_dates_span [of b bs] assms(1)
  have "int (length bs) \<le> date (last bars) - date (hd bars)"
    by (simp add: bars)
  then have "real (length bs) \<le> real_of_int (date (last bars) - date (hd bars))"
    by linarith
  then have "real (length bs) / 365.25
               \<le> real_of_int (date (last bars) - date (hd bars)) / 365.25"
    by (rule divide_right_mono) simp
  also have "\<dots> \<le> years_of bars"
    unfolding years_of_def by (rule max.cobounded1)
  finally show ?thesis by (simp add: bars)
qed

lemma inv_years_bound:
  fixes y :: real and m :: nat
  assumes "0 < m" and "real m / 365.25 \<le> y"
  shows "0 < y" and "1 / y \<le> 365.25 / real m"
proof -
  have mpos: "0 < real m / 365.25" using assms(1) by simp
  with assms(2) show ypos: "0 < y" by linarith
  have "1 / y \<le> 1 / (real m / 365.25)"
    using assms(2) mpos ypos by (intro divide_left_mono) simp_all
  then show "1 / y \<le> 365.25 / real m" by simp
qed

lemma two_powr_bound:
  fixes m :: nat
  assumes "0 < m"
  shows "((2::real) ^ m) powr (365.25 / real m) \<le> 2 ^ 366"
proof -
  have "((2::real) ^ m) powr (365.25 / real m) = (2 powr real m) powr (365.25 / real m)"
    by (simp add: powr_realpow)
  also have "\<dots> = 2 powr (real m * (365.25 / real m))"
    by (rule powr_powr)
  also have "real m * (365.25 / real m) = 365.25"
    using assms by simp
  also have "(2::real) powr 365.25 \<le> 2 powr real (366::nat)"
    by (intro powr_mono) simp_all
  also have "(2::real) powr real (366::nat) = 2 ^ 366"
    by (rule powr_realpow) simp
  finally show ?thesis .
qed

lemma power_bound:
  fixes x y :: real and m :: nat
  assumes "0 < x" and "x \<le> 2 ^ m" and "0 < m" and "real m / 365.25 \<le> y"
  shows "x powr (1 / y) \<le> FLOAT_MAX"
proof -
  note iy = inv_years_bound [OF assms(3,4)]
  have "x powr (1 / y) \<le> 2 ^ 366"
  proof (cases "x \<le> 1")
    case True
    have "x powr (1 / y) \<le> 1"
      using assms(1) True iy(1) by (intro powr_le1) simp_all
    also have "(1::real) \<le> 2 ^ 366" by (rule one_le_power) simp
    finally show ?thesis .
  next
    case False
    then have x1: "1 \<le> x" by simp
    have "x powr (1 / y) \<le> x powr (365.25 / real m)"
      using iy(2) x1 by (rule powr_mono)
    also have "\<dots> \<le> (2 ^ m) powr (365.25 / real m)"
      using assms(1,2,3) by (intro powr_mono2) simp_all
    also have "\<dots> \<le> 2 ^ 366"
      by (rule two_powr_bound [OF assms(3)])
    finally show ?thesis .
  qed
  then show ?thesis using float_max_ge by (rule order_trans)
qed

lemma in_data_model_no_overflow:
  assumes "in_data_model cfg bars tp_frac sl_frac start_equity" and "3 \<le> length bars"
  shows "\<not> cagr_overflows (years_of bars) start_equity
             (final_state cfg bars tp_frac sl_frac horizon_days start_equity)"
proof
  let ?E = "equity_comp (final_state cfg bars tp_frac sl_frac horizon_days start_equity)"
  assume "cagr_overflows (years_of bars) start_equity
             (final_state cfg bars tp_frac sl_frac horizon_days start_equity)"
  then have guard: "?E / start_equity - 1 > - 0.999999"
    and over: "(?E / start_equity) powr (1 / years_of bars) > FLOAT_MAX"
    by (simp_all add: cagr_overflows_def)
  from assms(1) have start: "0 < start_equity" and asc: "sorted_wrt (<) (map date bars)"
    by (simp_all add: in_data_model_def)
  have "(0.999999::real) < 1" by simp
  with guard have pos: "0 < ?E / start_equity" by linarith
  have "?E \<le> start_equity * 2 ^ (length bars - 1)"
    by (rule final_equity_bound(2) [OF assms(1)])
  then have up: "?E / start_equity \<le> 2 ^ (length bars - 1)"
    using start by (simp add: pos_divide_le_eq mult.commute)
  from assms(2) have m: "0 < length bars - 1" by simp
  from power_bound [OF pos up m years_of_lower [OF asc assms(2)]] over
  show False by linarith
qed

lemma simulate_returns_in_data_model:
  assumes "in_data_model cfg bars tp_frac sl_frac start_equity" and "3 \<le> length bars"
  shows "\<exists>r. simulate_system_for_metrics cfg bars tp_frac sl_frac horizon_days start_equity
               = Inr (Some r)"
proof -
  from assms(1) have "start_equity \<noteq> 0" by (simp add: in_data_model_def)
  from simulate_returns [OF assms(2) this in_data_model_no_overflow [OF assms]]
  show ?thesis .
qed

subsection \<open>The grid run\<close>

lemma simulate_row_key:
  assumes "simulate_system_for_metrics cfg bars tp sl h start_equity = Inr (Some st)"
  shows "row_key (make_row st) = clamped_combo (tp, sl, h)"
proof -
  note fin = simulate_Some(2) [OF assms]
  show ?thesis
    by (simp add: row_key_def clamped_combo_def make_row_def finish_fields(1) [OF fin]
          finish_fields(8) [OF fin] finish_fields(9) [OF fin] clamp_horizon_def)
qed


lemma grid_loop_rows:
  assumes "3 \<le> length bars"
    and "\<forall>(tp, sl, h) \<in> set cs. in_data_model cfg bars tp sl (START_CAPITAL cfg)"
  shows "\<exists>new. grid_loop cfg bars cs results = Inr (results @ new)
               \<and> map row_key new = map clamped_combo cs"
  using assms(2)
proof (induction cs arbitrary: results)
  case Nil
  then show ?case by simp
next
  case (Cons c cs)
  obtain tp sl h where c: "c = (tp, sl, h)" by (cases c) auto
  from Cons.prems have dm: "in_data_model cfg bars tp sl (START_CAPITAL cfg)"
    and rest: "\<forall>(tp, sl, h) \<in> set cs. in_data_model cfg bars tp sl (START_CAPITAL cfg)"
    by (simp_all add: c)
  from simulate_returns_in_data_model [OF dm assms(1)] obtain st where
    st: "simulate_system_for_metrics cfg bars tp sl h (START_CAPITAL cfg) = Inr (Some st)"
    by blast
  from Cons.IH [OF rest, of "results @ [make_row st]"] obtain new where
    new: "grid_loop cfg bars cs (results @ [make_row st]) = Inr ((results @ [make_row st]) @ new)"
      "map row_key new = map clamped_combo cs"
    by blast
  have "grid_loop cfg bars (c # cs) results = Inr (results @ (make_row st # new))"
    by (simp add: c st new(1))
  moreover have "map row_key (make_row st # new) = map clamped_combo (c # cs)"
    by (simp add: new(2) simulate_row_key [OF st] c)
  ultimately show ?case by blast
qed

lemma linspace_ok:
  "0 \<le> num \<Longrightarrow> \<exists>xs. linspace start stop num = Inr xs \<and> length xs = nat num"
  by (simp add: linspace_def)

lemma between_convex:
  fixes a b t :: real
  assumes "0 \<le> t" and "t \<le> 1"
  shows "min a b \<le> a + t * (b - a)" and "a + t * (b - a) \<le> max a b"
proof -
  have eq: "a + t * (b - a) = (1 - t) * a + t * b" by (simp add: algebra_simps)
  have lo: "(1 - t) * min a b + t * min a b \<le> (1 - t) * a + t * b"
    using assms by (intro add_mono mult_left_mono) simp_all
  have hi: "(1 - t) * a + t * b \<le> (1 - t) * max a b + t * max a b"
    using assms by (intro add_mono mult_left_mono) simp_all
  from lo show "min a b \<le> a + t * (b - a)" unfolding eq by (simp add: algebra_simps)
  from hi show "a + t * (b - a) \<le> max a b" unfolding eq by (simp add: algebra_simps)
qed

lemma linspace_range:
  assumes "linspace start stop num = Inr xs" and "x \<in> set xs"
  shows "min start stop \<le> x \<and> x \<le> max start stop"
proof (cases "num = 1")
  case True
  with assms show ?thesis by (auto simp add: linspace_def)
next
  case False
  with assms obtain k where k: "0 \<le> k" "k \<le> num - 1"
    and x: "x = start + real_of_int k * ((stop - start) / real_of_int (num - 1))"
    by (auto simp add: linspace_def split: if_splits)
  from k have pos: "0 < real_of_int (num - 1) \<or> k = 0" by linarith
  define t where "t = real_of_int k / real_of_int (num - 1)"
  have t: "0 \<le> t" "t \<le> 1"
    using k pos by (auto simp add: t_def divide_le_eq_1)
  have "x = start + t * (stop - start)"
    by (simp add: x t_def)
  with between_convex [OF t, of start stop] show ?thesis by simp
qed

lemma arange_length: "length (arange lo hi) = nat (hi - lo)"
  by (simp add: arange_def)

lemma combos_length:
  "length (combos tp_values sl_values horizon_values)
     = length tp_values * length sl_values * length horizon_values"
proof -
  have inner: "\<And>tp. length (concat (map (\<lambda>sl. map (\<lambda>h. (tp, sl, h)) horizon_values) sl_values))
                  = length sl_values * length horizon_values"
    by (induction sl_values) simp_all
  show ?thesis
    unfolding combos_def by (induction tp_values) (simp_all add: inner algebra_simps)
qed

lemma combos_member:
  "(tp, sl, h) \<in> set (combos tp_values sl_values horizon_values)
     \<Longrightarrow> tp \<in> set tp_values \<and> sl \<in> set sl_values \<and> h \<in> set horizon_values"
  by (auto simp add: combos_def)

lemma in_data_model_between:
  assumes "in_data_model cfg bars tp1 sl1 start_equity"
    and "in_data_model cfg bars tp2 sl2 start_equity"
    and "min tp1 tp2 \<le> tp \<and> tp \<le> max tp1 tp2"
    and "min sl1 sl2 \<le> sl \<and> sl \<le> max sl1 sl2"
  shows "in_data_model cfg bars tp sl start_equity"
  using assms by (auto simp add: in_data_model_def)


lemma run_grid_search_no_horizons:
  assumes "HORIZON_MAX cfg < HORIZON_MIN cfg" and "0 \<le> TP_STEPS cfg" and "0 \<le> SL_STEPS cfg"
  shows "run_grid_search cfg bars = Inr []"
proof -
  from linspace_ok [OF assms(2)] obtain tps where
    tps: "linspace (TP_MIN cfg) (TP_MAX cfg) (TP_STEPS cfg) = Inr tps" by blast
  from linspace_ok [OF assms(3)] obtain sls where
    sls: "linspace (SL_MIN cfg) (SL_MAX cfg) (SL_STEPS cfg) = Inr sls" by blast
  from assms(1) have "arange (HORIZON_MIN cfg) (HORIZON_MAX cfg + 1) = []"
    by (simp add: arange_def)
  then have "combos tps sls (arange (HORIZON_MIN cfg) (HORIZON_MAX cfg + 1)) = []"
    using combos_length [of tps sls "[]"] by simp
  then show ?thesis
    by (simp add: run_grid_search_def tps sls)
qed

lemma run_grid_search_rows:
  assumes "3 \<le> length bars" and "0 \<le> TP_STEPS cfg" and "0 \<le> SL_STEPS cfg"
    and "in_data_model cfg bars (TP_MIN cfg) (SL_MIN cfg) (START_CAPITAL cfg)"
    and "in_data_model cfg bars (TP_MAX cfg) (SL_MAX cfg) (START_CAPITAL cfg)"
  shows "\<exists>tps sls rows.
           linspace (TP_MIN cfg) (TP_MAX cfg) (TP_STEPS cfg) = Inr tps
           \<and> linspace (SL_MIN cfg) (SL_MAX cfg) (SL_STEPS cfg) = Inr sls
           \<and> run_grid_search cfg bars = Inr rows
           \<and> map row_key rows
               = map clamped_combo (combos tps sls (arange (HORIZON_MIN cfg) (HORIZON_MAX cfg + 1)))
           \<and> length rows = nat (TP_STEPS cfg) * nat (SL_STEPS cfg)
                              * nat (HORIZON_MAX cfg - HORIZON_MIN cfg + 1)"
proof -
  let ?hs = "arange (HORIZON_MIN cfg) (HORIZON_MAX cfg + 1)"
  from linspace_ok [OF assms(2)] obtain tps where
    tps: "linspace (TP_MIN cfg) (TP_MAX cfg) (TP_STEPS cfg) = Inr tps"
      "length tps = nat (TP_STEPS cfg)" by blast
  from linspace_ok [OF assms(3)] obtain sls where
    sls: "linspace (SL_MIN cfg) (SL_MAX cfg) (SL_STEPS cfg) = Inr sls"
      "length sls = nat (SL_STEPS cfg)" by blast
  have dm: "\<forall>(tp, sl, h) \<in> set (combos tps sls ?hs).
              in_data_model cfg bars tp sl (START_CAPITAL cfg)"
  proof (clarify)
    fix tp sl h
    assume "(tp, sl, h) \<in> set (combos tps sls ?hs)"
    then have "tp \<in> set tps" and "sl \<in> set sls"
      using combos_member by blast+
    then show "in_data_model cfg bars tp sl (START_CAPITAL cfg)"
      using in_data_model_between [OF assms(4,5)] linspace_range [OF tps(1)]
        linspace_range [OF sls(1)]
      by blast
  qed
  from grid_loop_rows [OF assms(1) dm, of "[]"] obtain rows where
    rows: "grid_loop cfg bars (combos tps sls ?hs) [] = Inr rows"
      "map row_key rows = map clamped_combo (combos tps sls ?hs)"
    by auto
  have run: "run_grid_search cfg bars = Inr rows"
    by (simp add: run_grid_search_def tps(1) sls(1) rows(1))
  have "length rows = length (combos tps sls ?hs)"
    using rows(2) by (rule map_eq_imp_length_eq)
  then have "length rows = nat (TP_STEPS cfg) * nat (SL_STEPS cfg)
                              * nat (HORIZON_MAX cfg - HORIZON_MIN cfg + 1)"
    by (simp add: combos_length tps(2) sls(2) arange_length algebra_simps)
  with tps(1) sls(1) run rows(2) show ?thesis by blast
qed

lemma clamped_rows_horizon:
  assumes "map row_key rows = map clamped_combo cs" and "row \<in> set rows"
  shows "1 \<le> res_horizon_days (stats row)"
proof -
  from assms(2) have "row_key row \<in> set (map clamped_combo cs)"
    unfolding assms(1) [symmetric] by simp
  then obtain c where "row_key row = clamped_combo c" by auto
  then show ?thesis
    by (cases c) (auto simp add: row_key_def clamped_combo_def)
qed

subsection \<open>The float arithmetic of the compounding equity\<close>

lemma comp_update_finite:
  assumes "e * (1 + r) \<le> FLOAT_MAX"
  shows "comp_update (Finite e) r = Finite (comp_step e r)"
proof (cases "e * (1 + r) < - FLOAT_MAX")
  case True
  with float_max_pos have "e * (1 + r) < 0" by linarith
  with True assms show ?thesis
    by (simp add: comp_update_def py_range_def comp_step_def)
next
  case False
  with assms show ?thesis
    by (auto simp add: comp_update_def py_range_def comp_step_def max_def)
qed

lemma comp_fold_float:
  assumes "0 \<le> e" and "\<forall>r \<in> set rs. 1 + r \<le> 2" and "e * 2 ^ length rs \<le> FLOAT_MAX"
  shows "foldl comp_update (Finite e) rs = Finite (foldl comp_step e rs)"
  using assms
proof (induction rs arbitrary: e)
  case Nil
  then show ?case by simp
next
  case (Cons r rs)
  from Cons.prems have r: "1 + r \<le> 2" by simp
  note b = comp_step_bound [OF Cons.prems(1) r]
  have "e * 2 \<le> e * 2 ^ length (r # rs)"
    using Cons.prems(1) by (intro mult_left_mono) (simp_all add: self_le_power)
  with b(2) Cons.prems(3) have le: "comp_step e r \<le> FLOAT_MAX" by simp
  have "e * (1 + r) \<le> e * 2" using r Cons.prems(1) by (rule mult_left_mono)
  with \<open>e * 2 \<le> e * 2 ^ length (r # rs)\<close> Cons.prems(3)
  have step: "comp_update (Finite e) r = Finite (comp_step e r)"
    by (intro comp_update_finite) linarith
  have "comp_step e r * 2 ^ length rs \<le> (e * 2) * 2 ^ length rs"
    using b(2) by (intro mult_right_mono) simp_all
  also have "\<dots> = e * 2 ^ length (r # rs)" by simp
  also note Cons.prems(3)
  finally have "comp_step e r * 2 ^ length rs \<le> FLOAT_MAX" .
  from Cons.IH [OF _ _ this] b(1) Cons.prems(2)
  have "foldl comp_update (Finite (comp_step e r)) rs = Finite (foldl comp_step (comp_step e r) rs)"
    by simp
  with step show ?case by simp
qed

lemma equity_comp_float_agrees:
  assumes "in_data_model cfg bars tp_frac sl_frac start_equity"
    and "start_equity * 2 ^ (length bars - 1) \<le> FLOAT_MAX"
  shows "equity_comp_float cfg bars tp_frac sl_frac horizon_days start_equity
           = Finite (equity_comp (final_state cfg bars tp_frac sl_frac horizon_days start_equity))"
proof -
  let ?h = "clamp_horizon horizon_days"
  let ?w = "position_weight ?h"
  let ?idx = "[1..int (length bars) - 1]"
  let ?log = "resolution_log cfg bars tp_frac sl_frac ?h ?w (init_state start_equity) ?idx"
  let ?rs = "map (eff_of cfg tp_frac sl_frac ?w) ?log"
  from assms(1) have dm: "0 \<le> tp_frac" "tp_frac \<le> 1" "0 \<le> sl_frac" "0 \<le> TOTAL_COST_FRAC cfg"
    "0 < start_equity"
    by (simp_all add: in_data_model_def)
  have all: "\<forall>r \<in> set ?rs. 1 + r \<le> 2"
    using eff_of_bound [OF position_weight_range dm(1-4)] by auto
  have start: "0 \<le> start_equity" using dm(5) by simp
  have "length ?log \<le> length ?idx"
    using resolution_log_length [of cfg bars tp_frac sl_frac ?h ?w "init_state start_equity" ?idx]
    by (simp add: init_state_def)
  then have len: "length ?rs \<le> length bars - 1" by simp
  have "(2::real) ^ length ?rs \<le> 2 ^ (length bars - 1)"
    using len by (intro power_increasing) simp_all
  then have "start_equity * 2 ^ length ?rs \<le> start_equity * 2 ^ (length bars - 1)"
    using start by (intro mult_left_mono) simp_all
  with assms(2) have "start_equity * 2 ^ length ?rs \<le> FLOAT_MAX" by linarith
  from comp_fold_float [OF start all this]
  show ?thesis
    by (simp add: equity_comp_float_def final_state_def run_bars_equity_comp init_state_def Let_def)
qed

lemma comp_update_positive:
  assumes "0 < y"
  shows "py_max_zero (py_range y) = (if y \<le> FLOAT_MAX then Finite y else PosInf)"
proof (cases "y \<le> FLOAT_MAX")
  case True
  moreover have "\<not> y < - FLOAT_MAX" using assms float_max_pos by linarith
  moreover have "\<not> 0 > y" using assms by simp
  ultimately show ?thesis by (simp add: py_range_def)
next
  case False
  then show ?thesis by (simp add: py_range_def)
qed

lemma comp_update_grow:
  assumes "0 < e" and "0 < r" and "e \<le> FLOAT_MAX"
  shows "foldl comp_update (Finite e) (replicate k r)
           = (if e * (1 + r) ^ k \<le> FLOAT_MAX then Finite (e * (1 + r) ^ k) else PosInf)"
proof (induction k)
  case 0
  then show ?case using assms(3) by simp
next
  case (Suc k)
  define x where "x = e * (1 + r) ^ k"
  define y where "y = e * (1 + r) ^ Suc k"
  have xpos: "0 < x" using assms by (simp add: x_def)
  have y: "y = x * (1 + r)" by (simp add: x_def y_def)
  have ypos: "0 < y" using assms by (simp add: y_def)
  have "x * 1 < x * (1 + r)" using xpos assms(2) by (intro mult_strict_left_mono) simp_all
  then have grow: "x < y" by (simp add: y)
  have snoc: "foldl comp_update (Finite e) (replicate (Suc k) r)
                = comp_update (foldl comp_update (Finite e) (replicate k r)) r"
  proof -
    have "replicate (Suc k) r = replicate k r @ [r]"
      by (simp add: replicate_append_same)
    then show ?thesis by (simp only: foldl_append foldl.simps)
  qed
  have "foldl comp_update (Finite e) (replicate (Suc k) r)
          = (if y \<le> FLOAT_MAX then Finite y else PosInf)"
  proof (cases "x \<le> FLOAT_MAX")
    case True
    with Suc.IH have "foldl comp_update (Finite e) (replicate k r) = Finite x"
      by (simp add: x_def)
    with snoc have "foldl comp_update (Finite e) (replicate (Suc k) r) = comp_update (Finite x) r"
      by simp
    also have "\<dots> = py_max_zero (py_range y)"
      by (simp add: comp_update_def y)
    also have "\<dots> = (if y \<le> FLOAT_MAX then Finite y else PosInf)"
      using ypos by (rule comp_update_positive)
    finally show ?thesis .
  next
    case False
    with Suc.IH have "foldl comp_update (Finite e) (replicate k r) = PosInf"
      by (simp add: x_def)
    with snoc have "foldl comp_update (Finite e) (replicate (Suc k) r) = comp_update PosInf r"
      by simp
    also have "\<dots> = PosInf" using assms(2) by (simp add: comp_update_def)
    finally show ?thesis using False grow by simp
  qed
  then show ?case by (simp only: y_def)
qed

lemma comp_update_inf_zero: "comp_update PosInf (- 1) = NaN"
  by (simp add: comp_update_def)

subsection \<open>Concrete runs\<close>

lemmas run_eval = run_bars_def bar_step_def new_position_def
  process_position_def outcome_def close_position_def init_state_def module_config_def
  raw_return_def eff_return_def TOTAL_COST_FRAC_def expiry_of_def Let_def

lemma idx_1_2: "[1..2::int] = [1, 2]"
  by (simp add: upto.simps)

lemma flat_bars_length: "length flat_bars = 3"
  by (simp add: flat_bars_def)


lemma near_total_loss_length: "length near_total_loss_bars = 3"
  by (simp add: near_total_loss_bars_def)

lemma clamp_horizon_1: "clamp_horizon 1 = 1" "position_weight 1 = 1"
  by (simp_all add: clamp_horizon_def position_weight_def)

lemma near_total_loss_run:
  "equity_comp (run_bars module_config near_total_loss_bars (1/10) (9978999/10000000) 1 1
                  (init_state 100000) [1, 2]) = 9979 / 1000000"
  by (simp add: run_eval near_total_loss_bars_def)

lemma flat_run_trades:
  "trades (run_bars module_config flat_bars (1/10) (1/10) 1 1 (init_state 100000) [1, 2]) = 0"
  by (simp add: run_eval flat_bars_def)

lemma flat_run_log:
  "resolution_log module_config flat_bars (1/10) (1/10) 1 1 (init_state 100000) [1, 2] = [0, 0]"
  by (simp add: run_eval flat_bars_def bar_outcomes_def stays_open_def)

lemma near_total_loss_log:
  "resolution_log module_config near_total_loss_bars (1/10) (9978999/10000000) 1 1
     (init_state 100000) [1, 2] = [- 1, 0]"
  by (simp add: run_eval near_total_loss_bars_def bar_outcomes_def stays_open_def)

lemma flat_bars_in_data_model:
  "in_data_model module_config flat_bars (1/10) (1/10) 100000"
  by (simp add: in_data_model_def flat_bars_def TOTAL_COST_FRAC_def module_config_def)

lemma near_total_loss_in_data_model:
  "in_data_model module_config near_total_loss_bars (1/10) (9978999/10000000) 100000"
  by (simp add: in_data_model_def near_total_loss_bars_def TOTAL_COST_FRAC_def module_config_def)







lemma inverted_config_in_data_model:
  "in_data_model inverted_config flat_bars (TP_MIN inverted_config) (SL_MIN inverted_config)
     (START_CAPITAL inverted_config)"
  "in_data_model inverted_config flat_bars (TP_MAX inverted_config) (SL_MAX inverted_config)
     (START_CAPITAL inverted_config)"
  by (simp_all add: in_data_model_def flat_bars_def TOTAL_COST_FRAC_def inverted_config_def
        module_config_def)

lemma inverted_config_steps:
  "0 \<le> TP_STEPS inverted_config" "0 \<le> SL_STEPS inverted_config"
  by (simp_all add: inverted_config_def module_config_def)

lemma inverted_linspace:
  "linspace (TP_MIN inverted_config) (TP_MAX inverted_config) (TP_STEPS inverted_config)
     = Inr [2/5, 1/200]"
  "linspace (SL_MIN inverted_config) (SL_MAX inverted_config) (SL_STEPS inverted_config)
     = Inr [1/5]"
  "arange (HORIZON_MIN inverted_config) (HORIZON_MAX inverted_config + 1) = [- 1, 0]"
  by (simp_all add: linspace_def arange_def inverted_config_def module_config_def upto.simps)

subsection \<open>The run on \<open>spike_bars\<close>\<close>

lemma horizon_one_log:
  assumes "open_pos s = []" and "\<forall>i \<in> set idx. i \<le> int (length bars) - 1"
  shows "resolution_log cfg bars tp_frac sl_frac 1 w s idx
           = map (\<lambda>i. outcome cfg (High (bars ! nat i)) (Low (bars ! nat i)) i
                         (new_position bars tp_frac sl_frac 1 (int (length bars)) i)) idx"
  using assms
proof (induction idx arbitrary: s)
  case Nil
  then show ?case by simp
next
  case (Cons i idx)
  let ?p = "new_position bars tp_frac sl_frac 1 (int (length bars)) i"
  from Cons.prems(2) have "i \<le> int (length bars) - 1" by simp
  then have "expiry_of ?p = i" by (simp add: new_position_expiry)
  then have closes: "\<not> stays_open cfg (High (bars ! nat i)) (Low (bars ! nat i)) i ?p"
    by (simp add: stays_open_def)
  have now: "bar_outcomes cfg (High (bars ! nat i)) (Low (bars ! nat i)) i (open_pos s @ [?p])
               = [outcome cfg (High (bars ! nat i)) (Low (bars ! nat i)) i ?p]"
    using closes by (simp add: bar_outcomes_def Cons.prems(1))
  have "open_pos (bar_step cfg bars tp_frac sl_frac 1 w s i) = []"
    using closes by (simp add: bar_step_open_pos Cons.prems(1))
  from Cons.IH [OF this] Cons.prems(2)
  have "resolution_log cfg bars tp_frac sl_frac 1 w (bar_step cfg bars tp_frac sl_frac 1 w s i) idx
           = map (\<lambda>i. outcome cfg (High (bars ! nat i)) (Low (bars ! nat i)) i
                         (new_position bars tp_frac sl_frac 1 (int (length bars)) i)) idx"
    by simp
  with now show ?case by simp
qed

lemma spike_bars_length: "length spike_bars = 1011"
  by (simp add: spike_bars_def del: upto_rec_numeral)

lemma spike_bars_nth:
  assumes "0 \<le> i" and "i \<le> 1010"
  shows "spike_bars ! nat i
           = \<lparr>date = i, Open = 100, High = (if i \<le> 1009 then 200 else 100),
               Low = (if i \<le> 1009 then 100 else 1 / 10), Close = 100\<rparr>"
proof -
  have len: "nat i < length [0..1010::int]"
    using assms by (simp del: upto_rec_numeral)
  have "[0..1010] ! nat i = 0 + int (nat i)"
    using assms by (intro nth_upto) simp
  then have nth: "[0..1010] ! nat i = i" using assms(1) by simp
  show ?thesis
    unfolding spike_bars_def by (simp only: nth_map [OF len] nth)
qed

lemma spike_outcome:
  assumes "1 \<le> i" and "i \<le> 1010"
  shows "outcome module_config (High (spike_bars ! nat i)) (Low (spike_bars ! nat i)) i
           (new_position spike_bars 1 (9979/10000) 1 (int (length spike_bars)) i)
         = (if i \<le> 1009 then 1 else - 1)"
proof -
  from assms have "0 \<le> i" by simp
  note nth = spike_bars_nth [OF this assms(2)]
  show ?thesis
    by (simp add: nth new_position_def outcome_def Let_def module_config_def
          del: upto_rec_numeral)
qed

lemma spike_idx: "[1..int (length spike_bars) - 1] = [1..1009] @ [1010]"
proof -
  have "[1..1010::int] = [1..1010 - 1] @ [1010]" by (rule upto_rec2) simp
  moreover have "(1010::int) - 1 = 1009" by simp
  moreover have "int (length spike_bars) - 1 = 1010" by (simp add: spike_bars_length)
  ultimately show ?thesis by (simp only:)
qed

lemma spike_log:
  "resolution_log module_config spike_bars 1 (9979/10000) 1 1 (init_state 100000)
     [1..int (length spike_bars) - 1]
   = replicate 1009 1 @ [- 1]"
proof -
  let ?f = "\<lambda>i. outcome module_config (High (spike_bars ! nat i)) (Low (spike_bars ! nat i)) i
                  (new_position spike_bars 1 (9979/10000) 1 (int (length spike_bars)) i)"
  have "resolution_log module_config spike_bars 1 (9979/10000) 1 1 (init_state 100000)
          [1..int (length spike_bars) - 1]
        = map ?f [1..int (length spike_bars) - 1]"
    by (rule horizon_one_log) (simp_all add: init_state_def del: upto_rec_numeral)
  also have "\<dots> = map ?f [1..1009] @ [?f 1010]"
    by (simp only: spike_idx map_append list.map)
  also have "map ?f [1..1009] = map (\<lambda>i. 1) [1..1009]"
    by (rule map_cong [OF refl]) (simp add: spike_outcome del: upto_rec_numeral)
  also have "\<dots> = replicate 1009 1"
    by (simp add: map_replicate_const del: upto_rec_numeral)
  also have "?f 1010 = - 1"
    using spike_outcome [of 1010] by (simp del: upto_rec_numeral)
  finally show ?thesis .
qed

lemma spike_bars_in_data_model:
  "in_data_model module_config spike_bars 1 (9979/10000) 100000"
proof -
  have "map date spike_bars = [0..1010]"
    unfolding spike_bars_def by (simp add: comp_def del: upto_rec_numeral)
  then have "sorted_wrt (<) (map date spike_bars)"
    by (simp only: sorted_wrt_upto)
  then show ?thesis
    by (simp add: in_data_model_def TOTAL_COST_FRAC_def module_config_def)
qed

lemma spike_effs:
  "map (eff_of module_config 1 (9979/10000) 1) (replicate 1009 1 @ [- 1])
     = replicate 1009 (9979/10000) @ [- 1]"
  by (simp add: eff_of_def eff_return_def raw_return_def TOTAL_COST_FRAC_def module_config_def)

lemma start_capital_in_range: "(100000::real) \<le> FLOAT_MAX"
proof -
  have "(100000::real) \<le> 2 ^ 17" by simp
  also have "(2::real) ^ 17 \<le> 2 ^ 366" by (intro power_increasing) simp_all
  also note float_max_ge
  finally show ?thesis .
qed

lemma square_lower:
  fixes c d x :: real
  assumes "c \<le> x" and "0 \<le> c" and "d \<le> c * c"
  shows "d \<le> x * x"
proof -
  have "c * c \<le> x * x" using assms(1,2) by (intro mult_mono) simp_all
  with assms(3) show ?thesis by linarith
qed

lemma product_lower:
  fixes c d x y :: real
  assumes "c \<le> x" and "d \<le> y" and "0 \<le> c" and "0 \<le> d"
  shows "c * d \<le> x * y"
  using assms by (intro mult_mono) simp_all

lemma spike_growth: "FLOAT_MAX < 100000 * (1 + 9979 / 10000) ^ 1009"
proof -
  define a :: real where "a = 19979 / 20000"
  have p1: "99895 / 100000 \<le> a" by (simp add: a_def)
  have p2: "9979 / 10000 \<le> a ^ 2"
    unfolding power2_eq_square by (rule square_lower [OF p1]) simp_all
  have "9958 / 10000 \<le> a ^ 2 * a ^ 2" by (rule square_lower [OF p2]) simp_all
  then have p4: "9958 / 10000 \<le> a ^ 4" by (simp add: power_add [symmetric])
  have "9916 / 10000 \<le> a ^ 4 * a ^ 4" by (rule square_lower [OF p4]) simp_all
  then have p8: "9916 / 10000 \<le> a ^ 8" by (simp add: power_add [symmetric])
  have "9832 / 10000 \<le> a ^ 8 * a ^ 8" by (rule square_lower [OF p8]) simp_all
  then have p16: "9832 / 10000 \<le> a ^ 16" by (simp add: power_add [symmetric])
  have "9666 / 10000 \<le> a ^ 16 * a ^ 16" by (rule square_lower [OF p16]) simp_all
  then have p32: "9666 / 10000 \<le> a ^ 32" by (simp add: power_add [symmetric])
  have "9343 / 10000 \<le> a ^ 32 * a ^ 32" by (rule square_lower [OF p32]) simp_all
  then have p64: "9343 / 10000 \<le> a ^ 64" by (simp add: power_add [symmetric])
  have "8729 / 10000 \<le> a ^ 64 * a ^ 64" by (rule square_lower [OF p64]) simp_all
  then have p128: "8729 / 10000 \<le> a ^ 128" by (simp add: power_add [symmetric])
  have "7619 / 10000 \<le> a ^ 128 * a ^ 128" by (rule square_lower [OF p128]) simp_all
  then have p256: "7619 / 10000 \<le> a ^ 256" by (simp add: power_add [symmetric])
  have "5804 / 10000 \<le> a ^ 256 * a ^ 256" by (rule square_lower [OF p256]) simp_all
  then have p512: "5804 / 10000 \<le> a ^ 512" by (simp add: power_add [symmetric])
  have "5804 / 10000 * (7619 / 10000) \<le> a ^ 512 * a ^ 256"
    by (rule product_lower [OF p512 p256]) simp_all
  then have "5804 / 10000 * (7619 / 10000) * (8729 / 10000) \<le> a ^ 512 * a ^ 256 * a ^ 128"
    by (rule product_lower [OF _ p128]) simp_all
  then have "5804 / 10000 * (7619 / 10000) * (8729 / 10000) * (9343 / 10000)
               \<le> a ^ 512 * a ^ 256 * a ^ 128 * a ^ 64"
    by (rule product_lower [OF _ p64]) simp_all
  then have "5804 / 10000 * (7619 / 10000) * (8729 / 10000) * (9343 / 10000) * (9666 / 10000)
               \<le> a ^ 512 * a ^ 256 * a ^ 128 * a ^ 64 * a ^ 32"
    by (rule product_lower [OF _ p32]) simp_all
  then have "5804 / 10000 * (7619 / 10000) * (8729 / 10000) * (9343 / 10000) * (9666 / 10000)
               * (9832 / 10000)
               \<le> a ^ 512 * a ^ 256 * a ^ 128 * a ^ 64 * a ^ 32 * a ^ 16"
    by (rule product_lower [OF _ p16]) simp_all
  then have "5804 / 10000 * (7619 / 10000) * (8729 / 10000) * (9343 / 10000) * (9666 / 10000)
               * (9832 / 10000) * (99895 / 100000)
               \<le> a ^ 512 * a ^ 256 * a ^ 128 * a ^ 64 * a ^ 32 * a ^ 16 * a"
    by (rule product_lower [OF _ p1]) simp_all
  moreover have "a ^ 512 * a ^ 256 * a ^ 128 * a ^ 64 * a ^ 32 * a ^ 16 * a = a ^ 1009"
    by (simp add: power_add [symmetric] flip: power_Suc2)
  moreover have "(32768 / 100000 :: real)
                   \<le> 5804 / 10000 * (7619 / 10000) * (8729 / 10000) * (9343 / 10000)
                       * (9666 / 10000) * (9832 / 10000) * (99895 / 100000)"
    by simp
  ultimately have low: "32768 / 100000 \<le> a ^ 1009" by linarith
  have "(2::real) ^ 1024 = 2 ^ 15 * 2 ^ 1009" by (simp add: power_add [symmetric])
  also have "\<dots> = 100000 * (32768 / 100000) * 2 ^ 1009" by simp
  also have "\<dots> \<le> 100000 * a ^ 1009 * 2 ^ 1009"
    using low by (intro mult_right_mono mult_left_mono) simp_all
  also have "\<dots> = 100000 * (a * 2) ^ 1009"
    by (simp add: power_mult_distrib)
  also have "a * 2 = 1 + 9979 / 10000" by (simp add: a_def)
  finally show ?thesis using float_max_lt by linarith
qed

section \<open>The claims\<close>

text \<open>
  C1. When the high reaches the take-profit level and the low reaches the stop-loss level
  in the same bar, the fill policy decides: with \<open>''SL_FIRST''\<close>, the value of the module
  constant, the position closes as SL with raw return \<open>- sl_frac\<close>; with \<open>''TP_FIRST''\<close> it
  closes as TP with raw return \<open>tp_frac\<close>. When only one level is reached, that exit closes
  the position.
\<close>

theorem ambiguous_fill_policy:
  "AMBIGUOUS_FILL module_config = ''SL_FIRST''
   \<and> (tpL \<le> hi \<and> lo \<le> slL \<and> AMBIGUOUS_FILL cfg = ''SL_FIRST'' \<longrightarrow>
        outcome cfg hi lo i (tpL, slL, e) = - 1
        \<and> process_position cfg tp_frac sl_frac w hi lo i s (tpL, slL, e)
            = close_position cfg tp_frac sl_frac w (- 1) s
        \<and> raw_return tp_frac sl_frac (outcome cfg hi lo i (tpL, slL, e)) = - sl_frac)
   \<and> (tpL \<le> hi \<and> lo \<le> slL \<and> AMBIGUOUS_FILL cfg = ''TP_FIRST'' \<longrightarrow>
        outcome cfg hi lo i (tpL, slL, e) = 1
        \<and> process_position cfg tp_frac sl_frac w hi lo i s (tpL, slL, e)
            = close_position cfg tp_frac sl_frac w 1 s
        \<and> raw_return tp_frac sl_frac (outcome cfg hi lo i (tpL, slL, e)) = tp_frac)
   \<and> (tpL \<le> hi \<and> \<not> lo \<le> slL \<longrightarrow>
        outcome cfg hi lo i (tpL, slL, e) = 1
        \<and> process_position cfg tp_frac sl_frac w hi lo i s (tpL, slL, e)
            = close_position cfg tp_frac sl_frac w 1 s
        \<and> raw_return tp_frac sl_frac (outcome cfg hi lo i (tpL, slL, e)) = tp_frac)
   \<and> (\<not> tpL \<le> hi \<and> lo \<le> slL \<longrightarrow>
        outcome cfg hi lo i (tpL, slL, e) = - 1
        \<and> process_position cfg tp_frac sl_frac w hi lo i s (tpL, slL, e)
            = close_position cfg tp_frac sl_frac w (- 1) s
        \<and> raw_return tp_frac sl_frac (outcome cfg hi lo i (tpL, slL, e)) = - sl_frac)"
  by (simp add: module_config_def outcome_def process_position_def raw_return_def Let_def)

theorem ambiguous_fill_policy_witness:
  "((105::real) \<le> 110 \<and> (90::real) \<le> 95 \<and> AMBIGUOUS_FILL module_config = ''SL_FIRST''
      \<and> outcome module_config 110 90 1 (105, 95, 3) = - 1
      \<and> raw_return (1/20) (1/20) (outcome module_config 110 90 1 (105, 95, 3)) = - (1/20))
   \<and> (AMBIGUOUS_FILL (module_config\<lparr>AMBIGUOUS_FILL := ''TP_FIRST''\<rparr>) = ''TP_FIRST''
      \<and> outcome (module_config\<lparr>AMBIGUOUS_FILL := ''TP_FIRST''\<rparr>) 110 90 1 (105, 95, 3) = 1)
   \<and> ((105::real) \<le> 110 \<and> \<not> (96::real) \<le> 95
      \<and> outcome module_config 110 96 1 (105, 95, 3) = 1)
   \<and> (\<not> (105::real) \<le> 100 \<and> (90::real) \<le> 95
      \<and> outcome module_config 100 90 1 (105, 95, 3) = - 1)"
  using ambiguous_fill_policy [where tpL = 105 and hi = 110 and lo = 90 and slL = 95
          and cfg = module_config and i = 1 and e = 3 and tp_frac = "1/20" and sl_frac = "1/20"
          and w = 1 and s = "init_state 1"]
        ambiguous_fill_policy [where tpL = 105 and hi = 110 and lo = 90 and slL = 95
          and cfg = "module_config\<lparr>AMBIGUOUS_FILL := ''TP_FIRST''\<rparr>" and i = 1 and e = 3
          and tp_frac = "1/20" and sl_frac = "1/20" and w = 1 and s = "init_state 1"]
        ambiguous_fill_policy [where tpL = 105 and hi = 110 and lo = 96 and slL = 95
          and cfg = module_config and i = 1 and e = 3 and tp_frac = "1/20" and sl_frac = "1/20"
          and w = 1 and s = "init_state 1"]
        ambiguous_fill_policy [where tpL = 105 and hi = 100 and lo = 90 and slL = 95
          and cfg = module_config and i = 1 and e = 3 and tp_frac = "1/20" and sl_frac = "1/20"
          and w = 1 and s = "init_state 1"]
  by (simp add: raw_return_def)

text \<open>
  C2. The code breaks the floor of the compounding equity. On \<open>spike_bars\<close>, with a
  take-profit fraction of 1, a stop-loss fraction of 0.9979, horizon 1 and the module's
  starting capital (all inside the data model), the 1009 take-profits carry the equity
  beyond the largest float, to infinity; the stop-loss has effective return \<open>-1\<close>, the
  product of infinity and zero is NaN, and \<^verbatim>\<open>max(equity_comp, 0.0)\<close> returns the NaN, which
  is not at least 0.
\<close>

theorem equity_floor_nan:
  "in_data_model module_config spike_bars 1 (9979/10000) 100000
   \<and> equity_comp_float module_config spike_bars 1 (9979/10000) 1 100000 = NaN"
proof -
  have "foldl comp_update (Finite 100000) (replicate 1009 (9979/10000))
          = (if 100000 * (1 + 9979/10000) ^ 1009 \<le> FLOAT_MAX
             then Finite (100000 * (1 + 9979/10000) ^ 1009) else PosInf)"
    by (rule comp_update_grow) (simp_all add: start_capital_in_range)
  also have "\<dots> = PosInf" using spike_growth by simp
  finally have inf: "foldl comp_update (Finite 100000) (replicate 1009 (9979/10000)) = PosInf" .
  have "equity_comp_float module_config spike_bars 1 (9979/10000) 1 100000
          = foldl comp_update (Finite 100000) (replicate 1009 (9979/10000) @ [- 1])"
    by (simp only: equity_comp_float_def Let_def clamp_horizon_1 spike_log spike_effs)
  also have "\<dots> = comp_update PosInf (- 1)"
    by (simp only: foldl_append foldl.simps inf)
  also have "\<dots> = NaN" by (rule comp_update_inf_zero)
  finally show ?thesis using spike_bars_in_data_model by simp
qed



text \<open>
  C6. Every value of \<^verbatim>\<open>out\<close> is TP, SL or FLAT. A position that resolves has raw return
  \<open>tp_frac\<close> on TP, \<open>- sl_frac\<close> on SL and 0 on FLAT, and the return applied to the linear
  sum, the linear equity and the compounding equity is \<open>w * r - w * TOTAL_COST_FRAC\<close>: the
  cost is subtracted whatever the outcome. The cost is twice the fee rate plus the spread
  rate.
\<close>

theorem realized_return:
  "(outcome cfg hi lo i p = 1 \<or> outcome cfg hi lo i p = - 1 \<or> outcome cfg hi lo i p = 0)
   \<and> TOTAL_COST_FRAC cfg = 2 * FEE_RATE cfg + SPREAD_RATE cfg
   \<and> (\<not> stays_open cfg hi lo i p \<longrightarrow>
        (let out = outcome cfg hi lo i p;
             r = (if out = 1 then tp_frac else if out = - 1 then - sl_frac else 0);
             eff_r = w * r - w * TOTAL_COST_FRAC cfg;
             s' = process_position cfg tp_frac sl_frac w hi lo i s p
         in raw_return tp_frac sl_frac out = r
            \<and> pnl_linear_sum s' = pnl_linear_sum s + eff_r
            \<and> equity_lin s' = max (equity_lin s + eff_r) 0
            \<and> equity_comp s' = max (equity_comp s * (1 + eff_r)) 0))"
proof (intro conjI impI)
  show "outcome cfg hi lo i p = 1 \<or> outcome cfg hi lo i p = - 1 \<or> outcome cfg hi lo i p = 0"
    by (rule outcome_cases)
  show "TOTAL_COST_FRAC cfg = 2 * FEE_RATE cfg + SPREAD_RATE cfg"
    by (simp add: TOTAL_COST_FRAC_def)
next
  assume closes: "\<not> stays_open cfg hi lo i p"
  show "let out = outcome cfg hi lo i p;
             r = (if out = 1 then tp_frac else if out = - 1 then - sl_frac else 0);
             eff_r = w * r - w * TOTAL_COST_FRAC cfg;
             s' = process_position cfg tp_frac sl_frac w hi lo i s p
         in raw_return tp_frac sl_frac out = r
            \<and> pnl_linear_sum s' = pnl_linear_sum s + eff_r
            \<and> equity_lin s' = max (equity_lin s + eff_r) 0
            \<and> equity_comp s' = max (equity_comp s * (1 + eff_r)) 0"
    by (simp add: process_position_closes [OF closes] close_position_def raw_return_def
          eff_return_def Let_def)
qed

theorem realized_return_witness:
  "\<not> stays_open module_config 100 100 1 (105, 95, 1)
   \<and> outcome module_config 100 100 1 (105, 95, 1) = 0
   \<and> pnl_linear_sum (process_position module_config (1/20) (1/20) (1/2) 100 100 1 (init_state 1) (105, 95, 1))
       = - (21 / 20000)
   \<and> equity_lin (process_position module_config (1/20) (1/20) (1/2) 100 100 1 (init_state 1) (105, 95, 1))
       = 19979 / 20000"
  using realized_return [where cfg = module_config and hi = 100 and lo = 100 and i = 1
          and p = "(105, 95, 1)" and tp_frac = "1/20" and sl_frac = "1/20" and w = "1/2"
          and s = "init_state 1"]
  by (simp add: stays_open_def outcome_def expiry_of_def init_state_def
        TOTAL_COST_FRAC_def module_config_def Let_def)

text \<open>
  C5. For a horizon \<open>H \<ge> 1\<close> the horizon is used as given and each position has weight
  \<open>1 / H\<close>. The position opened at bar \<open>i\<close> gets expiry \<open>min (i + H - 1) (n - 1)\<close>.
  After bar \<open>k\<close> every position still open expires later than \<open>k\<close> and not after the
  last bar, so the position opened at bar \<open>i\<close> is no longer open once bar
  \<open>min (i + H - 1) (n - 1)\<close> has been processed, and nothing is open after the last bar.
\<close>

theorem horizon_weight_expiry:
  "1 \<le> H \<longrightarrow>
     clamp_horizon H = H
     \<and> position_weight (clamp_horizon H) = 1 / real_of_int H
     \<and> expiry_of (new_position bars tp_frac sl_frac (clamp_horizon H) (int (length bars)) i)
         = min (i + H - 1) (int (length bars) - 1)
     \<and> (p \<in> set (open_pos (run_bars cfg bars tp_frac sl_frac (clamp_horizon H) w
                             (init_state start_equity) (idx @ [k])))
          \<longrightarrow> k < expiry_of p \<and> expiry_of p \<le> int (length bars) - 1)
     \<and> new_position bars tp_frac sl_frac (clamp_horizon H) (int (length bars)) i
         \<notin> set (open_pos (run_bars cfg bars tp_frac sl_frac (clamp_horizon H) w
                             (init_state start_equity)
                             (idx @ [min (i + H - 1) (int (length bars) - 1)])))
     \<and> (2 \<le> length bars \<longrightarrow>
          open_pos (run_bars cfg bars tp_frac sl_frac (clamp_horizon H) w
                      (init_state start_equity) [1..int (length bars) - 1]) = [])"
proof (intro impI conjI)
  assume H: "1 \<le> H"
  then show clamp: "clamp_horizon H = H" by (simp add: clamp_horizon_def)
  from H show "position_weight (clamp_horizon H) = 1 / real_of_int H"
    by (simp add: clamp_horizon_def position_weight_def)
  show e: "expiry_of (new_position bars tp_frac sl_frac (clamp_horizon H) (int (length bars)) i)
         = min (i + H - 1) (int (length bars) - 1)"
    by (simp add: new_position_expiry clamp)
  show "new_position bars tp_frac sl_frac (clamp_horizon H) (int (length bars)) i
         \<notin> set (open_pos (run_bars cfg bars tp_frac sl_frac (clamp_horizon H) w
                             (init_state start_equity)
                             (idx @ [min (i + H - 1) (int (length bars) - 1)])))"
    using bar_step_open_expiry
            [of "new_position bars tp_frac sl_frac (clamp_horizon H) (int (length bars)) i"
                cfg bars tp_frac sl_frac "clamp_horizon H" w
                "run_bars cfg bars tp_frac sl_frac (clamp_horizon H) w (init_state start_equity) idx"
                "min (i + H - 1) (int (length bars) - 1)"]
    by (auto simp add: run_bars_snoc e)
next
  assume "p \<in> set (open_pos (run_bars cfg bars tp_frac sl_frac (clamp_horizon H) w
                             (init_state start_equity) (idx @ [k])))"
  then have p: "p \<in> set (open_pos (bar_step cfg bars tp_frac sl_frac (clamp_horizon H) w
           (run_bars cfg bars tp_frac sl_frac (clamp_horizon H) w (init_state start_equity) idx) k))"
    by (simp add: run_bars_snoc)
  from bar_step_open_expiry [OF p] show "k < expiry_of p" .
  have "\<forall>q \<in> set (open_pos (run_bars cfg bars tp_frac sl_frac (clamp_horizon H) w
           (init_state start_equity) idx)). expiry_of q \<le> int (length bars) - 1"
    by (rule run_bars_expiry_bound) (simp add: init_state_def)
  from bar_step_expiry_bound [OF this p] show "expiry_of p \<le> int (length bars) - 1" .
next
  assume "2 \<le> length bars"
  then show "open_pos (run_bars cfg bars tp_frac sl_frac (clamp_horizon H) w
                      (init_state start_equity) [1..int (length bars) - 1]) = []"
    by (rule run_all_closed)
qed

theorem horizon_weight_expiry_witness:
  "(1::int) \<le> 2
   \<and> position_weight (clamp_horizon 2) = 1 / 2
   \<and> (110, 90, 2) \<in> set (open_pos (run_bars module_config flat_bars (1/10) (1/10) (clamp_horizon 2) (1/2)
                                   (init_state 100000) ([] @ [1])))
   \<and> 1 < expiry_of (110, 90, 2)
   \<and> 2 \<le> length flat_bars
   \<and> open_pos (run_bars module_config flat_bars (1/10) (1/10) (clamp_horizon 2) (1/2)
                 (init_state 100000) [1..int (length flat_bars) - 1]) = []"
proof -
  have mem: "(110, 90, 2) \<in> set (open_pos (run_bars module_config flat_bars (1/10) (1/10) (clamp_horizon 2) (1/2)
                                   (init_state 100000) ([] @ [1])))"
    by (simp add: run_bars_def flat_bars_def bar_step_def new_position_def process_position_def
          outcome_def init_state_def expiry_of_def clamp_horizon_def Let_def)
  from horizon_weight_expiry [where H = 2 and bars = flat_bars and cfg = module_config
         and tp_frac = "1/10" and sl_frac = "1/10" and w = "1/2" and start_equity = 100000
         and idx = "[]" and k = 1 and p = "(110, 90, 2)" and i = 1] mem
  show ?thesis by (simp add: flat_bars_length clamp_horizon_def position_weight_def)
qed




text \<open>
  C10. The simulator uses \<open>max horizon_days 1\<close> in place of the horizon it is given: a
  call with any horizon is the call with the clamped horizon, so a zero or negative
  horizon gives the very outcome of horizon 1, and the \<open>horizon_days\<close> a result reports
  is the clamped value.
\<close>

theorem horizon_clamped:
  "simulate_system_for_metrics cfg bars tp_frac sl_frac horizon_days start_equity
     = simulate_system_for_metrics cfg bars tp_frac sl_frac (max horizon_days 1) start_equity
   \<and> (horizon_days \<le> 0 \<longrightarrow>
        simulate_system_for_metrics cfg bars tp_frac sl_frac horizon_days start_equity
          = simulate_system_for_metrics cfg bars tp_frac sl_frac 1 start_equity)
   \<and> (simulate_system_for_metrics cfg bars tp_frac sl_frac horizon_days start_equity = Inr (Some r)
        \<longrightarrow> res_horizon_days r = max horizon_days 1)"
proof (intro conjI impI)
  have clamp: "clamp_horizon (max horizon_days 1) = clamp_horizon horizon_days"
    by (simp add: clamp_horizon_def)
  show "simulate_system_for_metrics cfg bars tp_frac sl_frac horizon_days start_equity
     = simulate_system_for_metrics cfg bars tp_frac sl_frac (max horizon_days 1) start_equity"
    by (simp add: simulate_system_for_metrics_def clamp)
next
  assume "horizon_days \<le> 0"
  then have "clamp_horizon horizon_days = clamp_horizon 1"
    by (simp add: clamp_horizon_def)
  then show "simulate_system_for_metrics cfg bars tp_frac sl_frac horizon_days start_equity
          = simulate_system_for_metrics cfg bars tp_frac sl_frac 1 start_equity"
    by (simp add: simulate_system_for_metrics_def)
next
  assume sim: "simulate_system_for_metrics cfg bars tp_frac sl_frac horizon_days start_equity = Inr (Some r)"
  from finish_fields(1) [OF simulate_Some(2) [OF sim]]
  show "res_horizon_days r = max horizon_days 1"
    by (simp add: clamp_horizon_def)
qed

theorem horizon_clamped_witness:
  "(- 5 :: int) \<le> 0
   \<and> simulate_system_for_metrics module_config flat_bars (1/10) (1/10) (- 5) 100000
       = simulate_system_for_metrics module_config flat_bars (1/10) (1/10) 1 100000
   \<and> (\<exists>r. simulate_system_for_metrics module_config flat_bars (1/10) (1/10) (- 5) 100000 = Inr (Some r)
          \<and> res_horizon_days r = 1)"
proof -
  note inst = horizon_clamped [where cfg = module_config and bars = flat_bars and tp_frac = "1/10"
         and sl_frac = "1/10" and horizon_days = "- 5" and start_equity = 100000]
  obtain r where
    r: "simulate_system_for_metrics module_config flat_bars (1/10) (1/10) (- 5) 100000 = Inr (Some r)"
    using simulate_returns_in_data_model [OF flat_bars_in_data_model, of "- 5"]
    by (auto simp add: flat_bars_length)
  from inst have same: "simulate_system_for_metrics module_config flat_bars (1/10) (1/10) (- 5) 100000
       = simulate_system_for_metrics module_config flat_bars (1/10) (1/10) 1 100000"
    by simp
  from horizon_clamped [where cfg = module_config and bars = flat_bars and tp_frac = "1/10"
         and sl_frac = "1/10" and horizon_days = "- 5" and start_equity = 100000 and r = r] r
  have "res_horizon_days r = 1" by simp
  with r have "\<exists>r. simulate_system_for_metrics module_config flat_bars (1/10) (1/10) (- 5) 100000 = Inr (Some r)
          \<and> res_horizon_days r = 1"
    by blast
  with same show ?thesis by simp
qed

text \<open>
  C8, as the claim states it, fails: on \<open>near_total_loss_bars\<close> with a stop-loss fraction of
  0.9978999 the compounded return is above \<open>-1\<close>, and the reported CAGR is NaN.
\<close>

theorem cagr_guard_counterexample:
  "map_sum id (map_option (\<lambda>r. (- 1 < res_compounded_return r, res_compounded_cagr r)))
     (simulate_system_for_metrics module_config near_total_loss_bars (1/10) (9978999/10000000) 1 100000)
   = Inr (Some (True, None))"
proof -
  obtain r where r: "simulate_system_for_metrics module_config near_total_loss_bars (1/10)
                       (9978999/10000000) 1 100000 = Inr (Some r)"
    using simulate_returns_in_data_model [OF near_total_loss_in_data_model, of 1]
    by (auto simp add: near_total_loss_length)
  from simulate_Some_run [OF r]
  have fin: "finish (1/10) (9978999/10000000) 1 (years_of near_total_loss_bars) 100000
               (run_bars module_config near_total_loss_bars (1/10) (9978999/10000000) 1 1
                  (init_state 100000) [1, 2]) = Inr r"
    by (simp add: clamp_horizon_1 near_total_loss_length idx_1_2)
  have cr: "res_compounded_return r = 9979 / 1000000 / 100000 - 1"
    by (simp add: finish_fields(6) [OF fin] near_total_loss_run)
  have "res_compounded_cagr r = None"
    by (simp add: finish_fields(7) [OF fin] cr)
  with cr show ?thesis by (simp add: r)
qed

text \<open>
  C8, amended. The span in years is always positive, and the reported CAGR is
  \<open>(1 + compounded_return) powr (1 / years) - 1\<close> exactly when the compounded return is
  above the guard \<open>-0.999999\<close> of line 346; at or below the guard it is NaN.
\<close>

theorem cagr_guard:
  "simulate_system_for_metrics cfg bars tp_frac sl_frac horizon_days start_equity = Inr (Some r)
   \<longrightarrow> 0 < res_years r
       \<and> res_compounded_cagr r =
           (if res_compounded_return r > - 0.999999
            then Some ((1 + res_compounded_return r) powr (1 / res_years r) - 1)
            else None)"
proof
  assume sim: "simulate_system_for_metrics cfg bars tp_frac sl_frac horizon_days start_equity = Inr (Some r)"
  note fin = simulate_Some(2) [OF sim]
  have y: "res_years r = years_of bars" by (rule finish_fields(3) [OF fin])
  then have pos: "0 < res_years r" by (simp add: years_of_pos)
  from finish_fields(7) [OF fin] pos y
  show "0 < res_years r
       \<and> res_compounded_cagr r =
           (if res_compounded_return r > - 0.999999
            then Some ((1 + res_compounded_return r) powr (1 / res_years r) - 1)
            else None)"
    by simp
qed

theorem cagr_guard_witness:
  "\<exists>r. simulate_system_for_metrics module_config flat_bars (1/10) (1/10) 1 100000 = Inr (Some r)
       \<and> 0 < res_years r
       \<and> res_compounded_cagr r =
           (if res_compounded_return r > - 0.999999
            then Some ((1 + res_compounded_return r) powr (1 / res_years r) - 1)
            else None)"
proof -
  obtain r where r: "simulate_system_for_metrics module_config flat_bars (1/10) (1/10) 1 100000
                       = Inr (Some r)"
    using simulate_returns_in_data_model [OF flat_bars_in_data_model, of 1]
    by (auto simp add: flat_bars_length)
  from cagr_guard [where cfg = module_config and bars = flat_bars and tp_frac = "1/10"
         and sl_frac = "1/10" and horizon_days = 1 and start_equity = 100000 and r = r] r
  show ?thesis by blast
qed

text \<open>
  C4, as the claim states it, fails: on three flat bars with horizon 1 both positions
  expire FLAT, and the reported trades total and trades per year are 0.
\<close>

theorem flat_not_counted_counterexample:
  "resolution_log module_config flat_bars (1/10) (1/10) 1 1 (init_state 100000) [1, 2] = [0, 0]
   \<and> map_sum id (map_option (\<lambda>r. (res_trades r, res_trades_per_year r)))
        (simulate_system_for_metrics module_config flat_bars (1/10) (1/10) 1 100000)
       = Inr (Some (0, Some 0))"
proof -
  obtain r where r: "simulate_system_for_metrics module_config flat_bars (1/10) (1/10) 1 100000
                       = Inr (Some r)"
    using simulate_returns_in_data_model [OF flat_bars_in_data_model, of 1]
    by (auto simp add: flat_bars_length)
  from simulate_Some_run [OF r]
  have fin: "finish (1/10) (1/10) 1 (years_of flat_bars) 100000
               (run_bars module_config flat_bars (1/10) (1/10) 1 1 (init_state 100000) [1, 2])
             = Inr r"
    by (simp add: clamp_horizon_1 flat_bars_length idx_1_2)
  have t: "res_trades r = 0"
    by (simp add: finish_fields(2) [OF fin] flat_run_trades)
  have "res_trades_per_year r = Some 0"
    by (simp add: finish_fields(5) [OF fin] flat_run_trades years_of_pos)
  with t flat_run_log show ?thesis by (simp add: r)
qed

text \<open>
  C4, amended. The trades total that a run reports is the number of TP and SL resolutions
  of the run, FLAT expiries not counted, and the trades per year are that total divided
  by the years.
\<close>

theorem trades_exclude_flat:
  "simulate_system_for_metrics cfg bars tp_frac sl_frac horizon_days start_equity = Inr (Some r)
   \<longrightarrow> res_trades r
         = count_trades (resolution_log cfg bars tp_frac sl_frac (clamp_horizon horizon_days)
             (position_weight (clamp_horizon horizon_days)) (init_state start_equity)
             [1..int (length bars) - 1])
       \<and> res_trades_per_year r = Some (real_of_int (res_trades r) / res_years r)"
proof
  assume sim: "simulate_system_for_metrics cfg bars tp_frac sl_frac horizon_days start_equity = Inr (Some r)"
  note fin = simulate_Some_run [OF sim]
  have "trades (init_state start_equity) = 0" by (simp add: init_state_def)
  then have t: "res_trades r
         = count_trades (resolution_log cfg bars tp_frac sl_frac (clamp_horizon horizon_days)
             (position_weight (clamp_horizon horizon_days)) (init_state start_equity)
             [1..int (length bars) - 1])"
    by (simp add: finish_fields(2) [OF fin] run_bars_trades)
  have "res_trades_per_year r = Some (real_of_int (res_trades r) / res_years r)"
    by (simp add: finish_fields(5) [OF fin] finish_fields(2) [OF fin] finish_fields(3) [OF fin]
          years_of_pos)
  with t show "res_trades r
         = count_trades (resolution_log cfg bars tp_frac sl_frac (clamp_horizon horizon_days)
             (position_weight (clamp_horizon horizon_days)) (init_state start_equity)
             [1..int (length bars) - 1])
       \<and> res_trades_per_year r = Some (real_of_int (res_trades r) / res_years r)"
    by simp
qed

theorem trades_exclude_flat_witness:
  "\<exists>r. simulate_system_for_metrics module_config near_total_loss_bars (1/10) (9978999/10000000) 1 100000
         = Inr (Some r)
       \<and> resolution_log module_config near_total_loss_bars (1/10) (9978999/10000000) 1 1
            (init_state 100000) [1, 2] = [- 1, 0]
       \<and> res_trades r = 1
       \<and> res_trades_per_year r = Some (1 / res_years r)"
proof -
  obtain r where r: "simulate_system_for_metrics module_config near_total_loss_bars (1/10)
                       (9978999/10000000) 1 100000 = Inr (Some r)"
    using simulate_returns_in_data_model [OF near_total_loss_in_data_model, of 1]
    by (auto simp add: near_total_loss_length)
  have idx: "[1..int (length near_total_loss_bars) - 1] = [1, 2]"
    by (simp add: near_total_loss_length idx_1_2)
  have cnt: "count_trades [- 1, 0] = 1"
    by (simp add: count_trades_def)
  from trades_exclude_flat [where cfg = module_config and bars = near_total_loss_bars
         and tp_frac = "1/10" and sl_frac = "9978999/10000000" and horizon_days = 1
         and start_equity = 100000 and r = r] r
  have "res_trades r
         = count_trades (resolution_log module_config near_total_loss_bars (1/10)
             (9978999/10000000) (clamp_horizon 1) (position_weight (clamp_horizon 1))
             (init_state 100000) [1..int (length near_total_loss_bars) - 1])
       \<and> res_trades_per_year r = Some (real_of_int (res_trades r) / res_years r)"
    by blast
  then have "res_trades r = 1 \<and> res_trades_per_year r = Some (real_of_int (res_trades r) / res_years r)"
    by (simp only: clamp_horizon_1 idx near_total_loss_log cnt)
  then have "res_trades r = 1 \<and> res_trades_per_year r = Some (1 / res_years r)"
    by simp
  with r near_total_loss_log show ?thesis by blast
qed

text \<open>
  C9, as the claim states it, fails: with both maxima below their minima and the horizons
  \<open>-1\<close> and \<open>0\<close> the grid run raises nothing and returns a row for each of the four
  combinations.
\<close>

theorem no_configuration_check_counterexample:
  "TP_MAX inverted_config < TP_MIN inverted_config
   \<and> SL_MAX inverted_config < SL_MIN inverted_config
   \<and> HORIZON_MAX inverted_config \<le> 0
   \<and> map_sum id length (run_grid_search inverted_config flat_bars) = Inr 4"
proof -
  have len: "3 \<le> length flat_bars" by (simp add: flat_bars_length)
  from run_grid_search_rows [OF len inverted_config_steps inverted_config_in_data_model]
  obtain rows where "run_grid_search inverted_config flat_bars = Inr rows"
    and "length rows = nat (TP_STEPS inverted_config) * nat (SL_STEPS inverted_config)
           * nat (HORIZON_MAX inverted_config - HORIZON_MIN inverted_config + 1)"
    by blast
  then show ?thesis by (simp add: inverted_config_def module_config_def)
qed

text \<open>
  C9, amended. The grid bounds are not checked. With step counts that are not negative,
  at least three bars and both corners of the grid inside the data model, the grid run
  raises nothing, whatever the order of the bounds and the sign of the horizons: it
  returns one row for each enumerated combination, in enumeration order, each with the
  fractions of its combination and with the horizon clamped to at least 1. When the
  largest horizon is below the smallest, no combination is enumerated and the result is
  empty.
\<close>

theorem no_configuration_check:
  "(0 \<le> TP_STEPS cfg \<and> 0 \<le> SL_STEPS cfg \<and> 3 \<le> length bars
      \<and> in_data_model cfg bars (TP_MIN cfg) (SL_MIN cfg) (START_CAPITAL cfg)
      \<and> in_data_model cfg bars (TP_MAX cfg) (SL_MAX cfg) (START_CAPITAL cfg) \<longrightarrow>
      (\<exists>tps sls rows.
         linspace (TP_MIN cfg) (TP_MAX cfg) (TP_STEPS cfg) = Inr tps
         \<and> linspace (SL_MIN cfg) (SL_MAX cfg) (SL_STEPS cfg) = Inr sls
         \<and> run_grid_search cfg bars = Inr rows
         \<and> map row_key rows
             = map clamped_combo (combos tps sls (arange (HORIZON_MIN cfg) (HORIZON_MAX cfg + 1)))
         \<and> length rows = nat (TP_STEPS cfg) * nat (SL_STEPS cfg)
                            * nat (HORIZON_MAX cfg - HORIZON_MIN cfg + 1)
         \<and> (\<forall>row \<in> set rows. 1 \<le> res_horizon_days (stats row))))
   \<and> (0 \<le> TP_STEPS cfg \<and> 0 \<le> SL_STEPS cfg \<and> HORIZON_MAX cfg < HORIZON_MIN cfg \<longrightarrow>
        run_grid_search cfg bars = Inr [])"
proof (intro conjI impI)
  assume a: "0 \<le> TP_STEPS cfg \<and> 0 \<le> SL_STEPS cfg \<and> 3 \<le> length bars
      \<and> in_data_model cfg bars (TP_MIN cfg) (SL_MIN cfg) (START_CAPITAL cfg)
      \<and> in_data_model cfg bars (TP_MAX cfg) (SL_MAX cfg) (START_CAPITAL cfg)"
  then obtain tps sls rows where
    r: "linspace (TP_MIN cfg) (TP_MAX cfg) (TP_STEPS cfg) = Inr tps"
       "linspace (SL_MIN cfg) (SL_MAX cfg) (SL_STEPS cfg) = Inr sls"
       "run_grid_search cfg bars = Inr rows"
       "map row_key rows
             = map clamped_combo (combos tps sls (arange (HORIZON_MIN cfg) (HORIZON_MAX cfg + 1)))"
       "length rows = nat (TP_STEPS cfg) * nat (SL_STEPS cfg)
                            * nat (HORIZON_MAX cfg - HORIZON_MIN cfg + 1)"
    using run_grid_search_rows [of bars cfg] by blast
  have "\<forall>row \<in> set rows. 1 \<le> res_horizon_days (stats row)"
    using clamped_rows_horizon [OF r(4)] by blast
  with r show "\<exists>tps sls rows.
         linspace (TP_MIN cfg) (TP_MAX cfg) (TP_STEPS cfg) = Inr tps
         \<and> linspace (SL_MIN cfg) (SL_MAX cfg) (SL_STEPS cfg) = Inr sls
         \<and> run_grid_search cfg bars = Inr rows
         \<and> map row_key rows
             = map clamped_combo (combos tps sls (arange (HORIZON_MIN cfg) (HORIZON_MAX cfg + 1)))
         \<and> length rows = nat (TP_STEPS cfg) * nat (SL_STEPS cfg)
                            * nat (HORIZON_MAX cfg - HORIZON_MIN cfg + 1)
         \<and> (\<forall>row \<in> set rows. 1 \<le> res_horizon_days (stats row))"
    by blast
next
  assume "0 \<le> TP_STEPS cfg \<and> 0 \<le> SL_STEPS cfg \<and> HORIZON_MAX cfg < HORIZON_MIN cfg"
  then show "run_grid_search cfg bars = Inr []"
    using run_grid_search_no_horizons by blast
qed

theorem no_configuration_check_witness:
  "0 \<le> TP_STEPS inverted_config \<and> 0 \<le> SL_STEPS inverted_config \<and> 3 \<le> length flat_bars
   \<and> in_data_model inverted_config flat_bars (TP_MIN inverted_config) (SL_MIN inverted_config)
        (START_CAPITAL inverted_config)
   \<and> in_data_model inverted_config flat_bars (TP_MAX inverted_config) (SL_MAX inverted_config)
        (START_CAPITAL inverted_config)
   \<and> (\<exists>rows. run_grid_search inverted_config flat_bars = Inr rows
         \<and> map row_key rows = [(2/5, 1/5, 1), (2/5, 1/5, 1), (1/200, 1/5, 1), (1/200, 1/5, 1)]
         \<and> rows \<noteq> [] \<and> 1 \<le> res_horizon_days (stats (hd rows)))
   \<and> HORIZON_MAX (inverted_config\<lparr>HORIZON_MIN := 1\<rparr>) < HORIZON_MIN (inverted_config\<lparr>HORIZON_MIN := 1\<rparr>)
   \<and> run_grid_search (inverted_config\<lparr>HORIZON_MIN := 1\<rparr>) flat_bars = Inr []"
proof -
  have len: "3 \<le> length flat_bars" by (simp add: flat_bars_length)
  from no_configuration_check [where cfg = inverted_config and bars = flat_bars]
    inverted_config_steps inverted_config_in_data_model len
  obtain tps sls rows where
    r: "linspace (TP_MIN inverted_config) (TP_MAX inverted_config) (TP_STEPS inverted_config) = Inr tps"
       "linspace (SL_MIN inverted_config) (SL_MAX inverted_config) (SL_STEPS inverted_config) = Inr sls"
       "run_grid_search inverted_config flat_bars = Inr rows"
       "map row_key rows
             = map clamped_combo (combos tps sls (arange (HORIZON_MIN inverted_config)
                                                    (HORIZON_MAX inverted_config + 1)))"
       "\<forall>row \<in> set rows. 1 \<le> res_horizon_days (stats row)"
    by blast
  from r(1,2) have "tps = [2/5, 1/200]" "sls = [1/5]"
    by (simp_all add: inverted_linspace)
  with r(4) have keys: "map row_key rows
      = [(2/5, 1/5, 1), (2/5, 1/5, 1), (1/200, 1/5, 1), (1/200, 1/5, 1)]"
    by (simp add: inverted_linspace(3) combos_def clamped_combo_def)
  then have ne: "rows \<noteq> []" by auto
  with r(5) have hd: "1 \<le> res_horizon_days (stats (hd rows))" by simp
  from no_configuration_check [where cfg = "inverted_config\<lparr>HORIZON_MIN := 1\<rparr>" and bars = flat_bars]
  have empty: "run_grid_search (inverted_config\<lparr>HORIZON_MIN := 1\<rparr>) flat_bars = Inr []"
    by (simp add: inverted_config_def module_config_def)
  have lt: "HORIZON_MAX (inverted_config\<lparr>HORIZON_MIN := 1\<rparr>) < HORIZON_MIN (inverted_config\<lparr>HORIZON_MIN := 1\<rparr>)"
    by (simp add: inverted_config_def module_config_def)
  from r(3) keys ne hd
  have ex: "\<exists>rows. run_grid_search inverted_config flat_bars = Inr rows
         \<and> map row_key rows = [(2/5, 1/5, 1), (2/5, 1/5, 1), (1/200, 1/5, 1), (1/200, 1/5, 1)]
         \<and> rows \<noteq> [] \<and> 1 \<le> res_horizon_days (stats (hd rows))"
    by (intro exI [of _ rows] conjI)
  show ?thesis
    by (intro conjI inverted_config_steps len inverted_config_in_data_model ex lt empty)
qed

end
